theory Spec2Isabelle
  imports Main "HOL-Library.Word" "HOL-Library.Multiset"
begin

unbundle bit_operations_syntax

chapter \<open>The analytics adapters of wxhbts/monitor\<close>

text \<open>
  Two Express handlers answer \<^verbatim>\<open>GET /traffic\<close>: the CDN adapter (GraphQL upstream,
  \<^verbatim>\<open>src/unnamed/part_000\<close>) and the edge adapter (signed REST upstream,
  \<^verbatim>\<open>src/node-functions/esa/[[default]].js\<close>). The first part of this theory
  embeds their code; the second part states and proves the properties.
\<close>

section \<open>JavaScript values\<close>

text \<open>
  A JavaScript string is a sequence of 16-bit code units. The model has the strings
  whose code units are all below 256, one \<^typ>\<open>char\<close> for each code unit: the length of
  the list is \<^verbatim>\<open>s.length\<close>, \<open>take n\<close> is \<^verbatim>\<open>s.slice(0, n)\<close>, and the order of
  the character codes is the order of the code units. A string that may be
  \<^verbatim>\<open>undefined\<close> is a \<^typ>\<open>string option\<close>.

  A number is an integer (\<^typ>\<open>int\<close>), as the counters and byte totals of the upstream
  are. Every integer from \<open>- (2 ^ 53)\<close> to \<open>2 ^ 53\<close> is a double, and the sum of two of them
  that lies in that range again is computed exactly; \<^verbatim>\<open>a + b\<close> is modelled for these
  (\<open>js_plus\<close>) and for no other numbers.
\<close>

definition safe_integer :: "int \<Rightarrow> bool" where
  "safe_integer n = (- (2 ^ 53) \<le> n \<and> n \<le> 2 ^ 53)"

definition js_plus :: "int \<Rightarrow> int \<Rightarrow> int option" where
  "js_plus a b =
     (if safe_integer a \<and> safe_integer b \<and> safe_integer (a + b) then Some (a + b)
      else None)"

definition truthy :: "string option \<Rightarrow> bool" where
  "truthy v = (case v of None \<Rightarrow> False | Some s \<Rightarrow> s \<noteq> [])"

text \<open>\<^verbatim>\<open>v || d\<close> for an optional string \<open>v\<close> and a string \<open>d\<close>.\<close>

definition js_or :: "string option \<Rightarrow> string \<Rightarrow> string" where
  "js_or v d = (case v of None \<Rightarrow> d | Some s \<Rightarrow> if s = [] then d else s)"

text \<open>
  The configuration tables are object literals, so a lookup \<^verbatim>\<open>TABLE[key]\<close> that finds
  no own property goes on to \<^verbatim>\<open>Object.prototype\<close>, whose properties are all truthy
  (functions, and the prototype object itself for \<^verbatim>\<open>__proto__\<close>).
\<close>

definition Object_prototype :: "string list" where
  "Object_prototype =
     [''constructor'', ''__defineGetter__'', ''__defineSetter__'', ''hasOwnProperty'',
      ''__lookupGetter__'', ''__lookupSetter__'', ''isPrototypeOf'',
      ''propertyIsEnumerable'', ''toString'', ''valueOf'', ''__proto__'',
      ''toLocaleString'']"

datatype 'a js_property = Own 'a | Inherited | Undefined

definition js_lookup :: "(string \<times> 'a) list \<Rightarrow> string \<Rightarrow> 'a js_property" where
  "js_lookup table k =
     (case map_of table k of
        Some v \<Rightarrow> Own v
      | None \<Rightarrow> if k \<in> set Object_prototype then Inherited else Undefined)"

text \<open>
  An optional string used as a property key or in a template: \<^verbatim>\<open>undefined\<close>
  becomes its name.
\<close>

definition to_string :: "string option \<Rightarrow> string" where
  "to_string v = (case v of None \<Rightarrow> ''undefined'' | Some s \<Rightarrow> s)"

section \<open>The metric registries\<close>

subsection \<open>CDN adapter: \<^verbatim>\<open>METRIC_MAP\<close> and \<^verbatim>\<open>ZONE_TOPN_CONFIG\<close>\<close>

datatype scope = Account | Zone

text \<open>
  \<^verbatim>\<open>isDistribution\<close> is only ever tested for truthiness, so an entry without the
  property has \<open>False\<close>; \<^verbatim>\<open>dimension\<close> is \<open>None\<close> where the literal has none.
\<close>

record cdn_config =
  name :: string
  sumid :: string
  scope :: scope
  isDistribution :: bool
  dimension :: "string option"

definition series_metric :: "string \<Rightarrow> string \<Rightarrow> scope \<Rightarrow> cdn_config" where
  "series_metric n s sc =
     \<lparr>name = n, sumid = s, scope = sc, isDistribution = False, dimension = None\<rparr>"

definition distribution_metric :: "string \<Rightarrow> string \<Rightarrow> string \<Rightarrow> cdn_config" where
  "distribution_metric n s d =
     \<lparr>name = n, sumid = s, scope = Account, isDistribution = True, dimension = Some d\<rparr>"

definition METRIC_MAP :: "(string \<times> cdn_config) list" where
  "METRIC_MAP =
   [(''l7Flow_flux'', series_metric ''l7Flow_flux'' ''bytes'' Account),
    (''l7Flow_outFlux'', series_metric ''l7Flow_outFlux'' ''cachedBytes'' Account),
    (''l7Flow_request'', series_metric ''l7Flow_request'' ''requests'' Account),
    (''l7Flow_inFlux'', series_metric ''l7Flow_inFlux'' ''pageViews'' Account),
    (''l7Flow_outcc'', series_metric ''l7Flow_outcc'' ''threats'' Account),
    (''l7Flow_cachedRequests'',
       series_metric ''l7Flow_cachedRequests'' ''cachedRequests'' Account),
    (''l7Flow_outFlux_resourceType'',
       distribution_metric ''l7Flow_outFlux_resourceType'' ''bytes''
         ''edgeResponseContentTypeName''),
    (''l7Flow_request_resourceType'',
       distribution_metric ''l7Flow_request_resourceType'' ''requests''
         ''edgeResponseContentTypeName''),
    (''l7Flow_outFlux_country'',
       distribution_metric ''l7Flow_outFlux_country'' ''bytes'' ''clientCountryName''),
    (''l7Flow_request_country'',
       distribution_metric ''l7Flow_request_country'' ''requests'' ''clientCountryName''),
    (''function_requestCount'',
       series_metric ''function_requestCount'' ''requests'' Account),
    (''function_cpuCostTime'',
       series_metric ''function_cpuCostTime'' ''cpuTimeUs'' Account),
    (''l7Flow_outFlux_domain'', series_metric ''l7Flow_outFlux_domain'' ''bytes'' Zone),
    (''l7Flow_request_domain'', series_metric ''l7Flow_request_domain'' ''requests'' Zone)]"

definition ZONE_TOPN_CONFIG :: "(string \<times> string) list" where
  "ZONE_TOPN_CONFIG =
   [(''l7Flow_request_sip'', ''clientIP''),
    (''l7Flow_request_ua_device'', ''clientRequestHTTPMethodName''),
    (''l7Flow_request_ua_browser'', ''cacheStatus''),
    (''l7Flow_request_zym'', ''clientRequestHTTPHost'')]"

subsection \<open>Edge adapter: \<^verbatim>\<open>METRIC_CONFIG\<close> and its load-time default fill\<close>

text \<open>
  Every property of an edge descriptor is optional: the literal leaves \<^verbatim>\<open>action\<close> and
  \<^verbatim>\<open>type\<close> out of the Top-N entries, and a descriptor found on
  \<^verbatim>\<open>Object.prototype\<close> has none of the four. The fields \<open>esa_dimension\<close> and
  \<open>esa_type\<close> are the source's \<^verbatim>\<open>dimension\<close> and \<^verbatim>\<open>type\<close>.
\<close>

record esa_config =
  action :: "string option"
  field :: "string option"
  esa_dimension :: "string option"
  esa_type :: "string option"

definition ts_entry :: "string \<Rightarrow> esa_config" where
  "ts_entry f =
     \<lparr>action = Some ''DescribeSiteTimeSeriesData'', field = Some f,
      esa_dimension = Some ''ALL'', esa_type = Some ''TS''\<rparr>"

definition top_entry :: "string \<Rightarrow> string \<Rightarrow> esa_config" where
  "top_entry f d =
     \<lparr>action = None, field = Some f, esa_dimension = Some d, esa_type = None\<rparr>"

definition METRIC_CONFIG_literal :: "(string \<times> esa_config) list" where
  "METRIC_CONFIG_literal =
   [(''l7Flow_flux'', ts_entry ''Traffic''),
    (''l7Flow_inFlux'', ts_entry ''RequestTraffic''),
    (''l7Flow_outFlux'', ts_entry ''Traffic''),
    (''l7Flow_request'', ts_entry ''Requests''),
    (''l7Flow_request_country'', top_entry ''Requests'' ''ClientCountryCode''),
    (''l7Flow_outFlux_country'', top_entry ''Traffic'' ''ClientCountryCode''),
    (''l7Flow_outFlux_province'', top_entry ''Traffic'' ''ClientProvinceCode''),
    (''l7Flow_request_province'', top_entry ''Requests'' ''ClientProvinceCode''),
    (''l7Flow_outFlux_statusCode'', top_entry ''Traffic'' ''EdgeResponseStatusCode''),
    (''l7Flow_request_statusCode'', top_entry ''Requests'' ''EdgeResponseStatusCode''),
    (''l7Flow_outFlux_domain'', top_entry ''Traffic'' ''ClientRequestHost''),
    (''l7Flow_request_domain'', top_entry ''Requests'' ''ClientRequestHost''),
    (''l7Flow_outFlux_url'', top_entry ''Traffic'' ''ClientRequestPath''),
    (''l7Flow_request_url'', top_entry ''Requests'' ''ClientRequestPath''),
    (''l7Flow_outFlux_resourceType'', top_entry ''Traffic'' ''EdgeResponseContentType''),
    (''l7Flow_request_resourceType'', top_entry ''Requests'' ''EdgeResponseContentType''),
    (''l7Flow_outFlux_sip'', top_entry ''Traffic'' ''ClientIP''),
    (''l7Flow_request_sip'', top_entry ''Requests'' ''ClientIP''),
    (''l7Flow_outFlux_referers'', top_entry ''Traffic'' ''ClientRequestReferer''),
    (''l7Flow_request_referers'', top_entry ''Requests'' ''ClientRequestReferer''),
    (''l7Flow_outFlux_ua_os'', top_entry ''Traffic'' ''ClientOS''),
    (''l7Flow_request_ua_os'', top_entry ''Requests'' ''ClientOS''),
    (''l7Flow_outFlux_ua'', top_entry ''Traffic'' ''ClientRequestUserAgent''),
    (''l7Flow_request_ua'', top_entry ''Requests'' ''ClientRequestUserAgent''),
    (''l7Flow_outFlux_ua_device'', top_entry ''Traffic'' ''ClientRequestMethod''),
    (''l7Flow_request_ua_device'', top_entry ''Requests'' ''ClientRequestMethod''),
    (''l7Flow_outFlux_ua_browser'', top_entry ''Traffic'' ''EdgeCacheStatus''),
    (''l7Flow_request_ua_browser'', top_entry ''Requests'' ''EdgeCacheStatus''),
    (''l7Flow_outFlux_urlquery'', top_entry ''Traffic'' ''ClientRequestQuery''),
    (''l7Flow_url_res_query'', top_entry ''Requests'' ''ClientRequestQuery'')]"

text \<open>
  \<^verbatim>\<open>Object.keys(METRIC_CONFIG).forEach(key => { if (!METRIC_CONFIG[key].action) ... })\<close>:
  an entry without an action becomes a Top-N entry.
\<close>

definition default_fill :: "esa_config \<Rightarrow> esa_config" where
  "default_fill c =
     (if truthy (action c) then c
      else c\<lparr>action := Some ''DescribeSiteTopData'', esa_type := Some ''TOP''\<rparr>)"

definition METRIC_CONFIG :: "(string \<times> esa_config) list" where
  "METRIC_CONFIG = map (\<lambda>(k, c). (k, default_fill c)) METRIC_CONFIG_literal"

subsection \<open>The kind of a descriptor\<close>

text \<open>
  The data model's \<open>kind\<close>, read off the flags the code tests: the CDN adapter tests
  \<^verbatim>\<open>config.isDistribution\<close>, the edge adapter \<^verbatim>\<open>config.type === 'TS'\<close>.
\<close>

datatype kind = TimeSeries | Distribution

definition metric_kind :: "cdn_config \<Rightarrow> kind" where
  "metric_kind m = (if isDistribution m then Distribution else TimeSeries)"

definition esa_kind :: "esa_config \<Rightarrow> kind" where
  "esa_kind c = (if esa_type c = Some ''TS'' then TimeSeries else Distribution)"

section \<open>Dates\<close>

text \<open>
  A time value is a number of milliseconds since 1970-01-01T00:00:00Z, as an \<^typ>\<open>int\<close>.
  The day arithmetic is ECMAScript's (ECMA-262, Time Values and Time Range): \<open>Day\<close>,
  \<open>DayFromYear\<close>, \<open>InLeapYear\<close>, \<open>MakeDay\<close>.
\<close>

definition msPerDay :: int where
  "msPerDay = 86400000"

definition valid_time :: "int \<Rightarrow> bool" where
  "valid_time t = (- 8640000000000000 \<le> t \<and> t \<le> 8640000000000000)"

definition DayFromYear :: "int \<Rightarrow> int" where
  "DayFromYear y =
     365 * (y - 1970) + (y - 1969) div 4 - (y - 1901) div 100 + (y - 1601) div 400"

definition InLeapYear :: "int \<Rightarrow> bool" where
  "InLeapYear y = (y mod 4 = 0 \<and> (y mod 100 \<noteq> 0 \<or> y mod 400 = 0))"

definition month_lengths :: "int \<Rightarrow> int list" where
  "month_lengths y =
     [31, if InLeapYear y then 29 else 28, 31, 30, 31, 30, 31, 31, 30, 31, 30, 31]"

text \<open>
  \<open>YearFromDay d\<close> is the year \<open>y\<close> with \<open>DayFromYear y \<le> d < DayFromYear (y + 1)\<close>:
  the estimate from the mean year length is off by at most one.
\<close>

definition YearFromDay :: "int \<Rightarrow> int" where
  "YearFromDay d =
     (let y = 1970 + (400 * d) div 146097
      in if DayFromYear (y + 1) \<le> d then y + 1
         else if d < DayFromYear y then y - 1
         else y)"

text \<open>Month (from 1) and day of the month (from 1) of a day within the year (from 0).\<close>

fun MonthDate :: "int list \<Rightarrow> int \<Rightarrow> int \<Rightarrow> int \<times> int" where
  "MonthDate [] m d = (m, d + 1)"
| "MonthDate (len # rest) m d =
     (if d < len then (m, d + 1) else MonthDate rest (m + 1) (d - len))"

definition MakeDay :: "int \<Rightarrow> int \<Rightarrow> int \<Rightarrow> int" where
  "MakeDay y m d = DayFromYear y + sum_list (take (nat (m - 1)) (month_lengths y)) + d - 1"

subsection \<open>Decimal fields\<close>

definition digit_char :: "int \<Rightarrow> char" where
  "digit_char n = ''0123456789'' ! nat n"

definition digit_val :: "char \<Rightarrow> int option" where
  "digit_val c = map_of (zip ''0123456789'' [0, 1, 2, 3, 4, 5, 6, 7, 8, 9]) c"

text \<open>\<open>pad k n\<close>: the last \<open>k\<close> decimal digits of \<open>n\<close>, zero-padded.\<close>

fun pad :: "nat \<Rightarrow> int \<Rightarrow> string" where
  "pad 0 n = []"
| "pad (Suc k) n = pad k (n div 10) @ [digit_char (n mod 10)]"

fun number_from :: "int \<Rightarrow> string \<Rightarrow> int option" where
  "number_from acc [] = Some acc"
| "number_from acc (c # cs) =
     (case digit_val c of None \<Rightarrow> None | Some d \<Rightarrow> number_from (10 * acc + d) cs)"

definition number :: "string \<Rightarrow> int option" where
  "number s = number_from 0 s"

subsection \<open>\<^verbatim>\<open>Date.prototype.toISOString\<close>\<close>

datatype js_error = TypeError string | RangeError string | SyntaxError string | Error string

text \<open>
  Years 0 to 9999 print with four digits, the others in the expanded form with a sign and
  six digits. An invalid date (a time value out of range) throws a RangeError.
\<close>

definition year_string :: "int \<Rightarrow> string" where
  "year_string y =
     (if 0 \<le> y \<and> y \<le> 9999 then pad 4 y
      else (if y < 0 then ''-'' else ''+'') @ pad 6 (abs y))"

definition date_string :: "int \<Rightarrow> string" where
  "date_string d =
     (let y = YearFromDay d;
          md = MonthDate (month_lengths y) 1 (d - DayFromYear y)
      in year_string y @ ''-'' @ pad 2 (fst md) @ ''-'' @ pad 2 (snd md))"

definition time_string :: "int \<Rightarrow> string" where
  "time_string ms =
     pad 2 (ms div 3600000) @ '':'' @ pad 2 (ms div 60000 mod 60) @ '':''
     @ pad 2 (ms div 1000 mod 60) @ ''.'' @ pad 3 (ms mod 1000)"

definition toISOString :: "int \<Rightarrow> js_error + string" where
  "toISOString t =
     (if \<not> valid_time t then Inl (RangeError ''Invalid time value'')
      else Inr (date_string (t div msPerDay) @ ''T'' @ time_string (t mod msPerDay)
                @ ''Z''))"

subsection \<open>\<^verbatim>\<open>Date.parse\<close>\<close>

text \<open>
  \<^verbatim>\<open>Date.parse\<close> is a parameter of the model (a function from strings to time values,
  \<open>None\<close> for NaN): outside the ECMAScript date-time string format its result is
  implementation-defined. \<open>iso_parse\<close> is the part of the standard's format the adapters
  meet: \<^verbatim>\<open>YYYY-MM-DD\<close>, \<^verbatim>\<open>YYYY-MM-DDTHH:mm:ssZ\<close> and
  \<^verbatim>\<open>YYYY-MM-DDTHH:mm:ss.sssZ\<close>, all UTC. \<open>ecma_parse parse\<close> says that \<open>parse\<close>
  agrees with the standard there.
\<close>

definition iso_date :: "string \<Rightarrow> int option" where
  "iso_date s =
     (if length s = 10 \<and> s ! 4 = CHR ''-'' \<and> s ! 7 = CHR ''-'' then
        (case (number (take 4 s), number (take 2 (drop 5 s)), number (drop 8 s)) of
           (Some y, Some m, Some d) \<Rightarrow>
             if 1 \<le> m \<and> m \<le> 12 \<and> 1 \<le> d \<and> d \<le> month_lengths y ! nat (m - 1)
             then Some (MakeDay y m d) else None
         | _ \<Rightarrow> None)
      else None)"

definition iso_time :: "string \<Rightarrow> int option" where
  "iso_time s =
     (if length s = 8 \<and> s ! 2 = CHR '':'' \<and> s ! 5 = CHR '':'' then
        (case (number (take 2 s), number (take 2 (drop 3 s)), number (drop 6 s)) of
           (Some h, Some m, Some sec) \<Rightarrow>
             if h \<le> 23 \<and> m \<le> 59 \<and> sec \<le> 59
             then Some (h * 3600000 + m * 60000 + sec * 1000) else None
         | _ \<Rightarrow> None)
      else None)"

definition iso_parse :: "string \<Rightarrow> int option" where
  "iso_parse s =
     (if length s = 10 then map_option (\<lambda>d. d * msPerDay) (iso_date s)
      else if length s = 20 \<and> s ! 10 = CHR ''T'' \<and> s ! 19 = CHR ''Z'' then
        (case (iso_date (take 10 s), iso_time (take 8 (drop 11 s))) of
           (Some d, Some t) \<Rightarrow> Some (d * msPerDay + t)
         | _ \<Rightarrow> None)
      else if length s = 24 \<and> s ! 10 = CHR ''T'' \<and> s ! 19 = CHR ''.'' \<and> s ! 23 = CHR ''Z''
      then
        (case (iso_date (take 10 s), iso_time (take 8 (drop 11 s)),
               number (take 3 (drop 20 s))) of
           (Some d, Some t, Some f) \<Rightarrow> Some (d * msPerDay + t + f)
         | _ \<Rightarrow> None)
      else None)"

definition ecma_parse :: "(string \<Rightarrow> int option) \<Rightarrow> bool" where
  "ecma_parse parse = (\<forall>s t. iso_parse s = Some t \<longrightarrow> parse s = Some t)"

text \<open>The time values whose year prints with four digits (years 0000 to 9999).\<close>

definition four_digit_year :: "int \<Rightarrow> bool" where
  "four_digit_year t = (- 62167219200000 \<le> t \<and> t < 253402300800000)"

section \<open>CDN adapter: the time window (\<^verbatim>\<open>getTimeConfig\<close>)\<close>

record time_config =
  start :: string
  end' :: string
  queryFrom :: string
  queryTo :: string
  datasetMode :: string
  orderBy :: string
  dimensionKey :: string
  isLongTerm :: bool
  filterObj :: "(string \<times> string) list"

text \<open>
  \<open>now\<close> is the reading of \<^verbatim>\<open>new Date()\<close>. \<^verbatim>\<open>now.getTime() - fromTime > ...\<close> is false
  when \<open>fromTime\<close> is NaN. \<^verbatim>\<open>slice(0, 10)\<close> is \<open>take 10\<close>.
\<close>

definition getTimeConfig ::
  "(string \<Rightarrow> int option) \<Rightarrow> int \<Rightarrow> string option \<Rightarrow> string option
    \<Rightarrow> js_error + time_config" where
  "getTimeConfig parse now reqStartTime reqEndTime =
     (let yesterday = now - 24 * 60 * 60 * 1000 in
      case (if truthy reqStartTime then Inr (js_or reqStartTime [])
            else toISOString yesterday) of
        Inl err \<Rightarrow> Inl err
      | Inr s \<Rightarrow>
         (case (if truthy reqEndTime then Inr (js_or reqEndTime [])
                else toISOString now) of
            Inl err \<Rightarrow> Inl err
          | Inr e \<Rightarrow>
             let fromTime = parse s;
                 long =
                   (case fromTime of
                      None \<Rightarrow> False
                    | Some t \<Rightarrow> now - t > 3 * 24 * 60 * 60 * 1000)
             in if long then
                  Inr \<lparr>start = s, end' = e,
                       queryFrom = take 10 s, queryTo = take 10 e,
                       datasetMode = ''httpRequests1dGroups'', orderBy = ''date_ASC'',
                       dimensionKey = ''date'', isLongTerm = long,
                       filterObj = [(''date_geq'', take 10 s), (''date_leq'', take 10 e)]\<rparr>
                else
                  Inr \<lparr>start = s, end' = e,
                       queryFrom = s, queryTo = e,
                       datasetMode = ''httpRequests1hGroups'', orderBy = ''datetime_ASC'',
                       dimensionKey = ''datetime'', isLongTerm = long,
                       filterObj = [(''datetime_geq'', s), (''datetime_leq'', e)]\<rparr>))"

section \<open>The ways a step ends\<close>

text \<open>
  A step of a handler ends in one of three ways: it yields a value, it throws (the
  handler's \<^verbatim>\<open>catch\<close> answers 500), or it meets a value on which JavaScript would
  go on in a way the model does not follow (a payload member of another type than the
  upstream's schema gives it, a sum outside the integers that doubles add exactly, a
  comparison that depends on the host's collation): the model says so with
  \<open>Off_schema\<close> and nothing about the response.
\<close>

datatype 'a result = Ok 'a | Throw js_error | Off_schema

definition bind :: "'a result \<Rightarrow> ('a \<Rightarrow> 'b result) \<Rightarrow> 'b result" where
  "bind r f = (case r of Ok x \<Rightarrow> f x | Throw err \<Rightarrow> Throw err | Off_schema \<Rightarrow> Off_schema)"

definition lift :: "js_error + 'a \<Rightarrow> 'a result" where
  "lift r = (case r of Inl err \<Rightarrow> Throw err | Inr x \<Rightarrow> Ok x)"

text \<open>\<^verbatim>\<open>xs.reduce((acc, x) => acc + x, a)\<close>; \<open>None\<close> when a sum is not modelled.\<close>

fun reduce_plus :: "int \<Rightarrow> int list \<Rightarrow> int option" where
  "reduce_plus acc [] = Some acc"
| "reduce_plus acc (x # xs) =
     (case js_plus acc x of None \<Rightarrow> None | Some s \<Rightarrow> reduce_plus s xs)"

section \<open>\<^verbatim>\<open>Array.prototype.sort\<close> with a comparator\<close>

text \<open>
  The sort is stable (ECMAScript 2019), so for a consistent comparator its result is the
  one of a stable insertion sort: \<open>x\<close> goes before the first \<open>y\<close> with \<open>cmp x y \<le> 0\<close>.
\<close>

fun insert_by :: "('a \<Rightarrow> 'a \<Rightarrow> int) \<Rightarrow> 'a \<Rightarrow> 'a list \<Rightarrow> 'a list" where
  "insert_by cmp x [] = [x]"
| "insert_by cmp x (y # ys) =
     (if cmp x y \<le> 0 then x # y # ys else y # insert_by cmp x ys)"

definition js_sort :: "('a \<Rightarrow> 'a \<Rightarrow> int) \<Rightarrow> 'a list \<Rightarrow> 'a list" where
  "js_sort cmp xs = foldr (insert_by cmp) xs []"

text \<open>The order of two strings by their character codes: negative, zero or positive.\<close>

fun code_unit_compare :: "string \<Rightarrow> string \<Rightarrow> int" where
  "code_unit_compare [] [] = 0"
| "code_unit_compare [] (y # ys) = - 1"
| "code_unit_compare (x # xs) [] = 1"
| "code_unit_compare (x # xs) (y # ys) =
     (if (of_char x :: int) < of_char y then - 1
      else if (of_char y :: int) < of_char x then 1
      else code_unit_compare xs ys)"

text \<open>
  \<^verbatim>\<open>a.localeCompare(b)\<close> is the collation of the host. Two calendar dates
  \<^verbatim>\<open>YYYY-MM-DD\<close> have their digits and hyphens at the same places, and are ordered
  as their character codes are; no other pair of strings is modelled (\<open>None\<close>).
\<close>

definition localeCompare :: "string \<Rightarrow> string \<Rightarrow> int option" where
  "localeCompare a b =
     (if iso_date a \<noteq> None \<and> iso_date b \<noteq> None then Some (code_unit_compare a b)
      else None)"

text \<open>
  A sort whose comparator is not modelled on every pair: the sort is modelled when the
  comparator is on all pairs of elements of the array.
\<close>

definition js_sort_opt :: "('a \<Rightarrow> 'a \<Rightarrow> int option) \<Rightarrow> 'a list \<Rightarrow> 'a list option" where
  "js_sort_opt cmp xs =
     (if list_all (\<lambda>x. list_all (\<lambda>y. cmp x y \<noteq> None) xs) xs
      then Some (js_sort (\<lambda>x y. case cmp x y of Some c \<Rightarrow> c | None \<Rightarrow> 0) xs)
      else None)"

section \<open>CDN adapter: account-scope time series\<close>

text \<open>
  An upstream row, as the query selects it: the value of its time dimension
  (\<^verbatim>\<open>item.dimensions[dimensionMode]\<close>) and of its summed field
  (\<^verbatim>\<open>item.sum[config.sumid]\<close>). A point is \<^verbatim>\<open>{Timestamp, Value}\<close>.
\<close>

type_synonym row = "string \<times> int"
type_synonym point = "int \<times> int"

text \<open>\<^verbatim>\<open>Math.floor(Date.parse(timeValue) / 1000)\<close>; \<open>None\<close> is NaN.\<close>

definition epoch_second :: "(string \<Rightarrow> int option) \<Rightarrow> string \<Rightarrow> int option" where
  "epoch_second parse s = map_option (\<lambda>ms. ms div 1000) (parse s)"

text \<open>
  \<^verbatim>\<open>merged[k] = (merged[k] || 0) + v\<close> on an object kept as the list of its own
  properties in insertion order. A stored \<open>0\<close> is falsy and is replaced by \<open>0\<close>. The
  result is \<open>None\<close> when the sum is not modelled.
\<close>

fun add_to :: "'k \<Rightarrow> int \<Rightarrow> ('k \<times> int) list \<Rightarrow> ('k \<times> int) list option" where
  "add_to k v [] = map_option (\<lambda>s. [(k, s)]) (js_plus 0 v)"
| "add_to k v ((k', w) # rest) =
     (if k' = k
      then map_option (\<lambda>s. (k', s) # rest) (js_plus (if w = 0 then 0 else w) v)
      else map_option (\<lambda>r. (k', w) # r) (add_to k v rest))"

text \<open>
  The \<^verbatim>\<open>forEach\<close> over \<^verbatim>\<open>resultData\<close>. A row whose time does not parse gives the
  key \<^verbatim>\<open>NaN\<close>; the comparator of the sort below is then inconsistent and ECMAScript
  leaves the order to the implementation, so the model stops with \<open>None\<close>, as it does
  when a sum is not modelled.
\<close>

fun merge_rows ::
  "(string \<Rightarrow> int option) \<Rightarrow> row list \<Rightarrow> (int \<times> int) list \<Rightarrow> (int \<times> int) list option"
  where
  "merge_rows parse [] merged = Some merged"
| "merge_rows parse ((timeValue, v) # items) merged =
     (case epoch_second parse timeValue of
        None \<Rightarrow> None
      | Some ts \<Rightarrow>
          (case add_to ts v merged of
             None \<Rightarrow> None
           | Some m \<Rightarrow> merge_rows parse items m))"

text \<open>
  \<^verbatim>\<open>Object.entries\<close>: the keys that are array indices first, ascending, then the
  other keys in insertion order.
\<close>

definition is_array_index :: "int \<Rightarrow> bool" where
  "is_array_index k = (0 \<le> k \<and> k < 4294967295)"

definition entries :: "(int \<times> int) list \<Rightarrow> (int \<times> int) list" where
  "entries obj =
     sort_key fst (filter (\<lambda>e. is_array_index (fst e)) obj)
     @ filter (\<lambda>e. \<not> is_array_index (fst e)) obj"

text \<open>
  \<^verbatim>\<open>Object.entries(merged).sort((a, b) => Number(a[0]) - Number(b[0])).map(...)\<close>
\<close>

definition detail_of :: "(string \<Rightarrow> int option) \<Rightarrow> row list \<Rightarrow> point list option" where
  "detail_of parse resultData =
     map_option (\<lambda>merged. js_sort (\<lambda>a b. fst a - fst b) (entries merged))
       (merge_rows parse resultData [])"

text \<open>
  The daily rollup. \<^verbatim>\<open>new Date(item.Timestamp * 1000).toISOString().slice(0, 10)\<close>
  throws a RangeError on an invalid date. The day keys are not array indices, so
  \<^verbatim>\<open>Object.entries(dayMerged)\<close> keeps the insertion order. The timestamp of a day is
  \<^verbatim>\<open>Math.floor(Date.parse(day + "T00:00:00Z") / 1000)\<close>, NaN (\<open>None\<close>) when the
  string does not parse.
\<close>

fun day_merge :: "point list \<Rightarrow> (string \<times> int) list \<Rightarrow> (string \<times> int) list result"
  where
  "day_merge [] dayMerged = Ok dayMerged"
| "day_merge ((ts, v) # items) dayMerged =
     (case toISOString (ts * 1000) of
        Inl err \<Rightarrow> Throw err
      | Inr isoString \<Rightarrow>
          (case add_to (take 10 isoString) v dayMerged of
             None \<Rightarrow> Off_schema
           | Some m \<Rightarrow> day_merge items m))"

definition rollup ::
  "(string \<Rightarrow> int option) \<Rightarrow> point list \<Rightarrow> (int option \<times> int) list result" where
  "rollup parse detail =
     bind (day_merge detail []) (\<lambda>dayMerged.
       case js_sort_opt (\<lambda>a b. localeCompare (fst a) (fst b)) dayMerged of
         None \<Rightarrow> Off_schema
       | Some sorted_days \<Rightarrow>
           Ok (map (\<lambda>(day, v). (epoch_second parse (day @ ''T00:00:00Z''), v)) sorted_days))"

definition isFunctionMetric :: "string option \<Rightarrow> bool" where
  "isFunctionMetric metricParam =
     (metricParam = Some ''function_requestCount''
      \<or> metricParam = Some ''function_cpuCostTime'')"

text \<open>
  The series of the response: \<^verbatim>\<open>finalDetail\<close> and \<^verbatim>\<open>totalSum\<close>, the latter
  reduced over \<^verbatim>\<open>detail\<close>.
\<close>

record series =
  Detail :: "(int option \<times> int) list"
  Sum :: int

definition series_of ::
  "(string \<Rightarrow> int option) \<Rightarrow> string option \<Rightarrow> bool \<Rightarrow> point list \<Rightarrow> series result" where
  "series_of parse metricParam long detail =
     bind (if isFunctionMetric metricParam \<and> long then rollup parse detail
           else Ok (map (\<lambda>(ts, v). (Some ts, v)) detail)) (\<lambda>finalDetail.
       case reduce_plus 0 (map snd detail) of
         None \<Rightarrow> Off_schema
       | Some totalSum \<Rightarrow> Ok \<lparr>Detail = finalDetail, Sum = totalSum\<rparr>)"

section \<open>Distributions\<close>

text \<open>
  An entry is \<^verbatim>\<open>{Key, Value}\<close>. The CDN adapter sorts the account-scope distribution
  and the zone totals with \<^verbatim>\<open>(a, b) => b.Value - a.Value\<close>; the edge adapter and the
  ad-hoc zone Top-N only rename fields.
\<close>

definition by_value_desc :: "('k \<times> int) list \<Rightarrow> ('k \<times> int) list" where
  "by_value_desc detailData = js_sort (\<lambda>a b. snd b - snd a) detailData"

section \<open>JSON payloads and responses\<close>

datatype json =
  JNull | JBool bool | JNum int | JStr string | JArr "json list"
  | JObj "(string \<times> json) list"

text \<open>
  A value read from a payload is a \<^typ>\<open>json option\<close>, \<open>None\<close> for
  \<^verbatim>\<open>undefined\<close>.
\<close>

text \<open>A callback applied to the elements of an array in order; the first failure ends it.\<close>

fun map_result :: "('a \<Rightarrow> 'b result) \<Rightarrow> 'a list \<Rightarrow> 'b list result" where
  "map_result f [] = Ok []"
| "map_result f (x # xs) = bind (f x) (\<lambda>y. bind (map_result f xs) (\<lambda>ys. Ok (y # ys)))"

definition js_truthy :: "json option \<Rightarrow> bool" where
  "js_truthy v =
     (case v of
        None \<Rightarrow> False
      | Some JNull \<Rightarrow> False
      | Some (JBool b) \<Rightarrow> b
      | Some (JNum n) \<Rightarrow> n \<noteq> 0
      | Some (JStr s) \<Rightarrow> s \<noteq> []
      | Some (JArr xs) \<Rightarrow> True
      | Some (JObj ms) \<Rightarrow> True)"

text \<open>\<^verbatim>\<open>JSON.parse\<close> keeps the last of several members with one key.\<close>

definition own :: "(string \<times> json) list \<Rightarrow> string \<Rightarrow> json option" where
  "own ms k = map_of (rev ms) k"

definition cannot_read :: "string \<Rightarrow> string \<Rightarrow> js_error" where
  "cannot_read what k =
     TypeError (''Cannot read properties of '' @ what @ '' (reading '' @ [CHR 0x27] @ k
                @ [CHR 0x27] @ '')'')"

text \<open>
  \<^verbatim>\<open>x.k\<close> and \<^verbatim>\<open>x[k]\<close>. The keys the handlers read are never names of
  \<^verbatim>\<open>Object.prototype\<close>, \<^verbatim>\<open>Array.prototype\<close> or \<^verbatim>\<open>String.prototype\<close>; of
  an array and of a string only \<^verbatim>\<open>length\<close> and the index \<^verbatim>\<open>0\<close> are read, every
  other key they read is \<^verbatim>\<open>undefined\<close> there, as it is on a number or a boolean.
\<close>

fun member :: "json option \<Rightarrow> string \<Rightarrow> json option result" where
  "member None k = Throw (cannot_read ''undefined'' k)"
| "member (Some JNull) k = Throw (cannot_read ''null'' k)"
| "member (Some (JObj ms)) k = Ok (own ms k)"
| "member (Some (JArr xs)) k =
     Ok (if k = ''length'' then Some (JNum (int (length xs)))
         else if k = ''0'' then (case xs of [] \<Rightarrow> None | x # rest \<Rightarrow> Some x)
         else None)"
| "member (Some (JStr s)) k =
     Ok (if k = ''length'' then Some (JNum (int (length s)))
         else if k = ''0'' then (case s of [] \<Rightarrow> None | c # rest \<Rightarrow> Some (JStr [c]))
         else None)"
| "member (Some (JBool b)) k = Ok None"
| "member (Some (JNum n)) k = Ok None"

text \<open>\<^verbatim>\<open>x?.k\<close> and \<^verbatim>\<open>x?.[k]\<close>\<close>

definition opt_member :: "json option \<Rightarrow> string \<Rightarrow> json option result" where
  "opt_member v k =
     (case v of None \<Rightarrow> Ok None | Some JNull \<Rightarrow> Ok None | Some x \<Rightarrow> member v k)"

text \<open>
  A method of arrays (\<^verbatim>\<open>map\<close>, \<^verbatim>\<open>forEach\<close>, \<^verbatim>\<open>reduce\<close>) called on a value:
  the elements when it is an array, a TypeError otherwise.
\<close>

definition elements :: "string \<Rightarrow> string \<Rightarrow> json option \<Rightarrow> json list result" where
  "elements what method v =
     (case v of
        None \<Rightarrow> Throw (cannot_read ''undefined'' method)
      | Some JNull \<Rightarrow> Throw (cannot_read ''null'' method)
      | Some (JArr xs) \<Rightarrow> Ok xs
      | Some (JStr s) \<Rightarrow> Off_schema
      | Some x \<Rightarrow> Throw (TypeError (what @ ''.'' @ method @ '' is not a function'')))"

text \<open>\<^verbatim>\<open>JSON.stringify\<close> of an object literal leaves out the undefined members.\<close>

definition object :: "(string \<times> json option) list \<Rightarrow> json" where
  "object ms = JObj (List.map_filter (\<lambda>(k, v). map_option (\<lambda>x. (k, x)) v) ms)"

datatype response = Response nat json

datatype outcome = Sent response | Unmodelled

definition message :: "js_error \<Rightarrow> string" where
  "message err =
     (case err of TypeError m \<Rightarrow> m | RangeError m \<Rightarrow> m | SyntaxError m \<Rightarrow> m | Error m \<Rightarrow> m)"

definition error_body :: "string \<Rightarrow> json" where
  "error_body msg = JObj [(''error'', JStr msg)]"

section \<open>Upstream calls and replies\<close>

record call =
  http_method :: string
  url :: string
  headers :: "(string \<times> string) list"
  body :: "json option"

text \<open>
  What \<^verbatim>\<open>fetch\<close> gives back: a rejection, or a response with its status, its text and
  the result of \<^verbatim>\<open>response.json()\<close> (a SyntaxError when the text is not JSON).
\<close>

record http_reply =
  status :: nat
  statusText :: string
  body_text :: string
  body_json :: "js_error + json"

datatype fetched = Rejected js_error | Resolved http_reply

definition ok :: "http_reply \<Rightarrow> bool" where
  "ok r = (200 \<le> status r \<and> status r \<le> 299)"

text \<open>\<^verbatim>\<open>await (await fetch(...)).json()\<close>\<close>

definition api_data :: "fetched \<Rightarrow> json result" where
  "api_data reply =
     (case reply of
        Rejected err \<Rightarrow> Throw err
      | Resolved r \<Rightarrow> lift (body_json r))"

section \<open>CDN adapter: the handler of \<^verbatim>\<open>GET /traffic\<close>\<close>

text \<open>
  The credentials are what \<^verbatim>\<open>getKeys()\<close> returns, the query parameters are strings or
  absent (a repeated or bracketed parameter, which the framework may parse to an array or
  object, is outside the model).
\<close>

record credentials =
  secretId :: "string option"
  secretKey :: "string option"

record cf_credentials = credentials +
  accountTag :: "string option"
  zonetag :: "string option"

record query =
  metric :: "string option"
  startTime :: "string option"
  endTime :: "string option"

definition graphql_call :: "'a credentials_scheme \<Rightarrow> json \<Rightarrow> call" where
  "graphql_call ks payload =
     \<lparr>http_method = ''POST'', url = ''https://api.cloudflare.com/client/v4/graphql'',
      headers = [(''X-Auth-Email'', to_string (secretId ks)),
                 (''X-Auth-Key'', to_string (secretKey ks)),
                 (''Content-Type'', ''application/json'')],
      body = Some payload\<rparr>"

text \<open>The \<^verbatim>\<open>catch\<close> block and the end of the handler.\<close>

definition respond :: "response result \<Rightarrow> outcome" where
  "respond r =
     (case r of
        Ok resp \<Rightarrow> Sent resp
      | Throw err \<Rightarrow> Sent (Response 500 (error_body (message err)))
      | Off_schema \<Rightarrow> Unmodelled)"

text \<open>\<^verbatim>\<open>if (apiData.errors) return res.status(400).json(apiData)\<close>, then the rest.\<close>

definition unless_errors :: "json \<Rightarrow> response result \<Rightarrow> response result" where
  "unless_errors apiData rest =
     bind (member (Some apiData) ''errors'')
       (\<lambda>errors. if js_truthy errors then Ok (Response 400 apiData) else rest)"

subsection \<open>The ad-hoc zone Top-N\<close>

text \<open>
  A key found on \<^verbatim>\<open>Object.prototype\<close> gives a function (or, for
  \<^verbatim>\<open>__proto__\<close>, the prototype) as \<^verbatim>\<open>targetField\<close>; the template and the
  property access both turn it into its string.
\<close>

definition prototype_text :: "string \<Rightarrow> string" where
  "prototype_text k =
     (if k = ''__proto__'' then ''[object Object]''
      else ''function '' @ (if k = ''constructor'' then ''Object'' else k)
           @ ''() { [native code] }'')"

definition topn_query :: "string \<Rightarrow> time_config \<Rightarrow> string \<Rightarrow> string" where
  \<open>topn_query ztag timeCfg targetField =
     ''\<newline>''
     @ ''            query{\<newline>''
     @ ''                viewer {\<newline>''
     @ ''                    zones(filter: { zoneTag: "'' @ ztag @ ''" }) {\<newline>''
     @ ''                        httpRequestsAdaptiveGroups(\<newline>''
     @ ''                            limit: 10,\<newline>''
     @ ''                            orderBy: [count_DESC],\<newline>''
     @ ''                            filter: {\<newline>''
     @ ''                                datetime_geq: "'' @ queryFrom timeCfg @ ''",\<newline>''
     @ ''                                datetime_lt: "'' @ queryTo timeCfg @ ''"\<newline>''
     @ ''                            }\<newline>''
     @ ''                        ) {\<newline>''
     @ ''                             count\<newline>''
     @ ''                            dimensions {\<newline>''
     @ ''                                '' @ targetField @ ''\<newline>''
     @ ''                            }\<newline>''
     @ ''                        }\<newline>''
     @ ''                    }\<newline>''
     @ ''                }\<newline>''
     @ ''            }''\<close>

definition topn_entry :: "string \<Rightarrow> json \<Rightarrow> json result" where
  "topn_entry targetField grp =
     bind (member (Some grp) ''dimensions'') (\<lambda>dimensions.
     bind (member dimensions targetField) (\<lambda>k.
     bind (member (Some grp) ''count'') (\<lambda>count.
       Ok (object [(''Key'', k), (''Value'', count)]))))"

definition detail_body :: "json list \<Rightarrow> json" where
  "detail_body detailData = JObj [(''Data'', JArr [JObj [(''DetailData'', JArr detailData)]])]"

text \<open>\<^verbatim>\<open>groups.map(...)\<close> and the response: the groups stay in the order received.\<close>

definition topn_result :: "string \<Rightarrow> json option \<Rightarrow> response result" where
  "topn_result targetField groups =
     bind (elements ''groups'' ''map'' groups) (\<lambda>gs.
     bind (map_result (topn_entry targetField) gs) (\<lambda>detailData.
       Ok (Response 200 (detail_body detailData))))"

definition topn_response :: "string \<Rightarrow> json \<Rightarrow> response result" where
  "topn_response targetField apiData =
     unless_errors apiData
       (bind (member (Some apiData) ''data'') (\<lambda>data.
        bind (member data ''viewer'') (\<lambda>viewer.
        bind (member viewer ''zones'') (\<lambda>zones.
        bind (member zones ''0'') (\<lambda>zone.
        bind (member zone ''httpRequestsAdaptiveGroups'') (\<lambda>groups.
          topn_result targetField groups))))))"

definition topn_branch ::
  "(string \<Rightarrow> int option) \<Rightarrow> int \<Rightarrow> cf_credentials \<Rightarrow> query \<Rightarrow> string \<Rightarrow> fetched
    \<Rightarrow> outcome \<times> call list" where
  "topn_branch parse now ks q targetField graphql_reply =
     (case getTimeConfig parse now (startTime q) (endTime q) of
        Inl err \<Rightarrow> (respond (Throw err), [])
      | Inr timeCfg \<Rightarrow>
          (respond (bind (api_data graphql_reply) (topn_response targetField)),
           [graphql_call ks
              (JObj [(''query'',
                      JStr (topn_query (to_string (zonetag ks)) timeCfg targetField))])]))"

subsection \<open>Zone scope\<close>

definition zones_call :: "'a credentials_scheme \<Rightarrow> call" where
  "zones_call ks =
     \<lparr>http_method = ''GET'',
      url = ''https://api.cloudflare.com/client/v4/zones?status=active&per_page=50'',
      headers = [(''X-Auth-Email'', to_string (secretId ks)),
                 (''X-Auth-Key'', to_string (secretKey ks)),
                 (''Content-Type'', ''application/json'')],
      body = None\<rparr>"

text \<open>
  \<^verbatim>\<open>fetchZones\<close>: the pairs of \<^verbatim>\<open>item.id\<close> and \<^verbatim>\<open>item.name\<close> of the listed
  items, in order. \<^verbatim>\<open>zoneIds\<close> is the list of the first components, whatever
  values they are; \<^verbatim>\<open>idNameMap\<close> is made of the pairs by \<open>idNameMap_of\<close> below.
  Reading \<^verbatim>\<open>item.id\<close> throws when the item is \<^verbatim>\<open>null\<close>; an item that is no
  object has neither property. \<^verbatim>\<open>data?.result\<close> is an array only when \<open>data\<close> is an
  object with that member.
\<close>

definition zone_item :: "json \<Rightarrow> js_error + (json option \<times> json option)" where
  "zone_item it =
     (case it of
        JNull \<Rightarrow> Inl (cannot_read ''null'' ''id'')
      | JObj ms \<Rightarrow> Inr (own ms ''id'', own ms ''name'')
      | _ \<Rightarrow> Inr (None, None))"

fun zone_items :: "json list \<Rightarrow> js_error + (json option \<times> json option) list" where
  "zone_items [] = Inr []"
| "zone_items (it # items) =
     (case zone_item it of
        Inl err \<Rightarrow> Inl err
      | Inr z \<Rightarrow> (case zone_items items of Inl err \<Rightarrow> Inl err | Inr zs \<Rightarrow> Inr (z # zs)))"

definition fetchZones :: "fetched \<Rightarrow> js_error + (json option \<times> json option) list" where
  "fetchZones reply =
     (case reply of
        Rejected err \<Rightarrow> Inl err
      | Resolved r \<Rightarrow>
          if \<not> ok r then Inl (Error (''Fetch Zones Failed: '' @ statusText r))
          else
            (case body_json r of
               Inl err \<Rightarrow> Inl err
             | Inr (JObj ms) \<Rightarrow>
                 (case own ms ''result'' of
                    Some (JArr items) \<Rightarrow> zone_items items
                  | _ \<Rightarrow> Inr [])
             | Inr data \<Rightarrow> Inr []))"

text \<open>
  \<^verbatim>\<open>idNameMap\<close> as the list of its assignments in order. The model has it when every
  \<^verbatim>\<open>item.id\<close> is a string other than \<^verbatim>\<open>__proto__\<close>; the key another value is
  turned into is not modelled.
\<close>

definition idNameMap_of ::
  "(json option \<times> json option) list \<Rightarrow> (string \<times> json option) list result" where
  "idNameMap_of zones =
     map_result (\<lambda>z. case fst z of
                       Some (JStr s) \<Rightarrow> if s = ''__proto__'' then Off_schema else Ok (s, snd z)
                     | _ \<Rightarrow> Off_schema) zones"

definition zone_query_text :: "string \<Rightarrow> string \<Rightarrow> string \<Rightarrow> string \<Rightarrow> string" where
  \<open>zone_query_text dataset dimKey sortKey sumField =
     ''\<newline>''
     @ ''            query getTrafficTrend($zoneIds: [String!], $from: String!) {\<newline>''
     @ ''              viewer {\<newline>''
     @ ''                zones(filter: { zoneTag_in: $zoneIds }) {\<newline>''
     @ ''                  zoneTag\<newline>''
     @ ''                  '' @ dataset @ ''(\<newline>''
     @ ''                    limit: 1000,\<newline>''
     @ ''                    filter: { \<newline>''
     @ ''                        '' @ dimKey @ ''_geq: $from\<newline>''
     @ ''                    },\<newline>''
     @ ''                    orderBy: ['' @ sortKey @ '']\<newline>''
     @ ''                  ) {\<newline>''
     @ ''                    dimensions { '' @ dimKey @ '' }\<newline>''
     @ ''                    sum { '' @ sumField @ '' }\<newline>''
     @ ''                  }\<newline>''
     @ ''                }\<newline>''
     @ ''              }\<newline>''
     @ ''            }\<newline>''
     @ ''            ''\<close>

definition zone_query :: "time_config \<Rightarrow> cdn_config \<Rightarrow> string" where
  "zone_query timeCfg config =
     zone_query_text (datasetMode timeCfg) (dimensionKey timeCfg) (orderBy timeCfg)
       (sumid config)"

text \<open>
  The \<^verbatim>\<open>variables\<close> of the request body. \<^verbatim>\<open>JSON.stringify\<close> writes an
  \<^verbatim>\<open>undefined\<close> element of an array as \<^verbatim>\<open>null\<close>.
\<close>

definition zone_variables :: "json option list \<Rightarrow> time_config \<Rightarrow> json" where
  "zone_variables zoneIds timeCfg =
     JObj [(''zoneIds'', JArr (map (\<lambda>i. case i of None \<Rightarrow> JNull | Some v \<Rightarrow> v) zoneIds)),
           (''from'', JStr (queryFrom timeCfg)),
           (''to'', JStr (queryTo timeCfg))]"

text \<open>\<^verbatim>\<open>item.sum?.[config.sumid] || 0\<close>, taken to be a number when it is truthy.\<close>

definition row_sum :: "string \<Rightarrow> json \<Rightarrow> int result" where
  "row_sum sumField it =
     bind (member (Some it) ''sum'') (\<lambda>s.
     bind (opt_member s sumField) (\<lambda>v.
       if \<not> js_truthy v then Ok 0
       else case v of Some (JNum n) \<Rightarrow> Ok n | _ \<Rightarrow> Off_schema))"

text \<open>
  One zone of the reply: \<^verbatim>\<open>idNameMap[zoneId] || zoneId\<close> and the total of its rows.
  \<^verbatim>\<open>zone.zoneTag\<close> is taken to be a string that is not the name of a property of
  \<^verbatim>\<open>Object.prototype\<close> missing from \<^verbatim>\<open>idNameMap\<close>.
\<close>

definition zone_entry ::
  "(string \<times> json option) list \<Rightarrow> string \<Rightarrow> string \<Rightarrow> json \<Rightarrow> (json option \<times> int) result"
  where
  "zone_entry idNameMap dataset sumField z =
     bind (member (Some z) ''zoneTag'') (\<lambda>zoneId.
       case zoneId of
         Some (JStr zid) \<Rightarrow>
           (case js_lookup (rev idNameMap) zid of
              Inherited \<Rightarrow> Off_schema
            | found \<Rightarrow>
                bind (member (Some z) dataset) (\<lambda>d.
                bind (elements ''dataArr'' ''reduce''
                        (if js_truthy d then d else Some (JArr []))) (\<lambda>dataArr.
                bind (map_result (row_sum sumField) dataArr) (\<lambda>vals.
                  case reduce_plus 0 vals of
                    None \<Rightarrow> Off_schema
                  | Some totalVal \<Rightarrow>
                      Ok (case found of
                            Own (Some nm) \<Rightarrow> if js_truthy (Some nm) then Some nm
                                              else Some (JStr zid)
                          | _ \<Rightarrow> Some (JStr zid),
                          totalVal)))))
       | _ \<Rightarrow> Off_schema)"

definition entry_json :: "json option \<times> int \<Rightarrow> json" where
  "entry_json e = object [(''Key'', fst e), (''Value'', Some (JNum (snd e)))]"

definition empty_body :: json where
  "empty_body = JObj [(''Data'', JArr [])]"

text \<open>
  \<^verbatim>\<open>zonesData.map(...)\<close>, \<^verbatim>\<open>resultList.sort((a, b) => b.Value - a.Value)\<close> and
  the response.
\<close>

definition zone_result ::
  "(string \<times> json option) list \<Rightarrow> time_config \<Rightarrow> cdn_config \<Rightarrow> json option
    \<Rightarrow> response result" where
  "zone_result idNameMap timeCfg config zonesData =
     bind (elements ''zonesData'' ''map'' zonesData) (\<lambda>zs.
     bind (map_result (zone_entry idNameMap (datasetMode timeCfg) (sumid config)) zs)
       (\<lambda>resultList.
         Ok (Response 200 (detail_body (map entry_json (by_value_desc resultList))))))"

definition zone_response ::
  "(string \<times> json option) list \<Rightarrow> time_config \<Rightarrow> cdn_config \<Rightarrow> json \<Rightarrow> response result"
  where
  "zone_response idNameMap timeCfg config apiData =
     unless_errors apiData
       (bind (opt_member (Some apiData) ''data'') (\<lambda>data.
        bind (opt_member data ''viewer'') (\<lambda>viewer.
        bind (opt_member viewer ''zones'') (\<lambda>zones.
          zone_result idNameMap timeCfg config
            (if js_truthy zones then zones else Some (JArr []))))))"

definition zone_branch ::
  "cf_credentials \<Rightarrow> time_config \<Rightarrow> cdn_config \<Rightarrow> fetched \<Rightarrow> fetched
    \<Rightarrow> outcome \<times> call list" where
  "zone_branch ks timeCfg config zones_reply graphql_reply =
     (case fetchZones zones_reply of
        Inl err \<Rightarrow> (respond (Throw err), [zones_call ks])
      | Inr zones \<Rightarrow>
          if length (map fst zones) = 0 then
            (Sent (Response 200 empty_body), [zones_call ks])
          else
            (respond (bind (idNameMap_of zones) (\<lambda>idNameMap.
                      bind (api_data graphql_reply) (zone_response idNameMap timeCfg config))),
             [zones_call ks,
              graphql_call ks
                (JObj [(''query'', JStr (zone_query timeCfg config)),
                       (''variables'', zone_variables (map fst zones) timeCfg)])]))"

subsection \<open>Account scope\<close>

definition distribution_query_text :: "string \<Rightarrow> string \<Rightarrow> string \<Rightarrow> string \<Rightarrow> string"
  where
  \<open>distribution_query_text httpMode orderByMode sumField dimensionMode =
     ''\<newline>''
     @ ''                    query GetAccountDistribution($accountTag: String, $filter: AccountHttpRequestsAdaptiveGroupsFilter_InputObject) {\<newline>''
     @ ''                        viewer {\<newline>''
     @ ''                            accounts(filter: {accountTag: $accountTag}) {\<newline>''
     @ ''                                resultData: '' @ httpMode @ ''(filter: $filter, limit: 100, orderBy: ['' @ orderByMode @ '']) {\<newline>''
     @ ''                                    sum { '' @ sumField @ '' }\<newline>''
     @ ''                                    dimensions { '' @ dimensionMode @ '' }\<newline>''
     @ ''                                }\<newline>''
     @ ''                            }\<newline>''
     @ ''                        }\<newline>''
     @ ''                    }\<newline>''
     @ ''                ''\<close>

definition series_query_text :: "string \<Rightarrow> string \<Rightarrow> string \<Rightarrow> string \<Rightarrow> string" where
  \<open>series_query_text httpMode orderByMode sumField dimensionMode =
     ''\<newline>''
     @ ''                    query GetAccountTraffic($accountTag: String, $filter: AccountHttpRequestsAdaptiveGroupsFilter_InputObject) {\<newline>''
     @ ''                        viewer {\<newline>''
     @ ''                            accounts(filter: {accountTag: $accountTag}) {\<newline>''
     @ ''                                resultData: '' @ httpMode @ ''(filter: $filter, limit: 1000, orderBy: ['' @ orderByMode @ '']) {\<newline>''
     @ ''                                    sum { '' @ sumField @ '' }\<newline>''
     @ ''                                    dimensions { '' @ dimensionMode @ '' }\<newline>''
     @ ''                                }\<newline>''
     @ ''                            }\<newline>''
     @ ''                        }\<newline>''
     @ ''                    }\<newline>''
     @ ''                ''\<close>

text \<open>The query, \<^verbatim>\<open>dimensionMode\<close> and \<^verbatim>\<open>filterMode\<close> of the account branch.\<close>

record account_plan =
  plan_query :: string
  dimensionMode :: string
  filterMode :: "(string \<times> string) list"

definition account_plan :: "query \<Rightarrow> time_config \<Rightarrow> cdn_config \<Rightarrow> account_plan" where
  "account_plan q timeCfg config =
     (if isDistribution config then
        \<lparr>plan_query =
           distribution_query_text ''httpRequestsOverviewAdaptiveGroups''
             (''sum_'' @ sumid config @ ''_DESC'') (sumid config)
             (to_string (dimension config)),
         dimensionMode = to_string (dimension config),
         filterMode = [(''datetime_geq'', start timeCfg), (''datetime_leq'', end' timeCfg)]\<rparr>
      else if isFunctionMetric (metric q) then
        \<lparr>plan_query =
           series_query_text ''workersInvocationsAdaptive'' ''datetimeHour_ASC''
             (sumid config) ''datetimeHour'',
         dimensionMode = ''datetimeHour'',
         filterMode = filterObj timeCfg\<rparr>
      else
        \<lparr>plan_query =
           series_query_text (datasetMode timeCfg) (orderBy timeCfg) (sumid config)
             (dimensionKey timeCfg),
         dimensionMode = dimensionKey timeCfg,
         filterMode = filterObj timeCfg\<rparr>)"

text \<open>
  \<^verbatim>\<open>{Key: item.dimensions[config.dimension], Value: item.sum[config.sumid]}\<close>; the
  value is taken to be a number, as the sort subtracts it.
\<close>

definition distribution_entry :: "string \<Rightarrow> string \<Rightarrow> json \<Rightarrow> (json option \<times> int) result"
  where
  "distribution_entry dim sumField it =
     bind (member (Some it) ''dimensions'') (\<lambda>dimensions.
     bind (member dimensions dim) (\<lambda>k.
     bind (member (Some it) ''sum'') (\<lambda>s.
     bind (member s sumField) (\<lambda>v.
       case v of Some (JNum n) \<Rightarrow> Ok (k, n) | _ \<Rightarrow> Off_schema))))"

text \<open>A row of the series: the time is taken to be a string, the value a number.\<close>

definition series_row :: "string \<Rightarrow> string \<Rightarrow> json \<Rightarrow> row result" where
  "series_row dim sumField it =
     bind (member (Some it) ''dimensions'') (\<lambda>dimensions.
     bind (member dimensions dim) (\<lambda>timeValue.
     bind (member (Some it) ''sum'') (\<lambda>s.
     bind (member s sumField) (\<lambda>v.
       case (timeValue, v) of
         (Some (JStr t), Some (JNum n)) \<Rightarrow> Ok (t, n)
       | _ \<Rightarrow> Off_schema))))"

definition point_json :: "int option \<times> int \<Rightarrow> json" where
  "point_json p =
     JObj [(''Timestamp'', case fst p of None \<Rightarrow> JNull | Some t \<Rightarrow> JNum t),
           (''Value'', JNum (snd p))]"

definition series_body :: "string \<Rightarrow> series \<Rightarrow> json" where
  "series_body metricName s =
     JObj [(''Data'',
        JArr [JObj [(''TypeValue'',
          JArr [JObj [(''Detail'', JArr (map point_json (Detail s))),
                      (''MetricName'', JStr metricName),
                      (''Sum'', JNum (Sum s))]])]])]"

definition account_result ::
  "(string \<Rightarrow> int option) \<Rightarrow> query \<Rightarrow> time_config \<Rightarrow> cdn_config \<Rightarrow> json option
    \<Rightarrow> response result" where
  "account_result parse q timeCfg config resultData =
     (if isDistribution config then
        bind (elements ''resultData'' ''map'' resultData) (\<lambda>items.
        bind (map_result (distribution_entry (to_string (dimension config)) (sumid config))
                items) (\<lambda>detailData.
          Ok (Response 200 (detail_body (map entry_json (by_value_desc detailData))))))
      else
        bind (elements ''resultData'' ''forEach'' resultData) (\<lambda>items.
        bind (map_result
                (series_row (dimensionMode (account_plan q timeCfg config)) (sumid config))
                items) (\<lambda>rows.
          case detail_of parse rows of
            None \<Rightarrow> Off_schema
          | Some detail \<Rightarrow>
              bind (series_of parse (metric q) (isLongTerm timeCfg) detail) (\<lambda>s.
                Ok (Response 200 (series_body (name config) s))))))"

definition account_response ::
  "(string \<Rightarrow> int option) \<Rightarrow> query \<Rightarrow> time_config \<Rightarrow> cdn_config \<Rightarrow> json
    \<Rightarrow> response result" where
  "account_response parse q timeCfg config apiData =
     unless_errors apiData
       (bind (opt_member (Some apiData) ''data'') (\<lambda>data.
        bind (opt_member data ''viewer'') (\<lambda>viewer.
        bind (opt_member viewer ''accounts'') (\<lambda>accounts.
          if \<not> js_truthy accounts then Ok (Response 200 empty_body)
          else
            bind (member accounts ''length'') (\<lambda>len.
              if len = Some (JNum 0) then Ok (Response 200 empty_body)
              else
                bind (member accounts ''0'') (\<lambda>first.
                bind (member first ''resultData'') (\<lambda>rd.
                  account_result parse q timeCfg config
                    (if js_truthy rd then rd else Some (JArr [])))))))))"

definition account_branch ::
  "(string \<Rightarrow> int option) \<Rightarrow> cf_credentials \<Rightarrow> query \<Rightarrow> time_config \<Rightarrow> cdn_config
    \<Rightarrow> fetched \<Rightarrow> outcome \<times> call list" where
  "account_branch parse ks q timeCfg config graphql_reply =
     (respond (bind (api_data graphql_reply) (account_response parse q timeCfg config)),
      [graphql_call ks
         (JObj [(''query'', JStr (plan_query (account_plan q timeCfg config))),
                (''variables'',
                 JObj [(''accountTag'', JStr (to_string (accountTag ks))),
                       (''filter'',
                        JObj (map (\<lambda>kv. (fst kv, JStr (snd kv)))
                                (filterMode (account_plan q timeCfg config))))])])])"

subsection \<open>The route\<close>

definition missing_credentials :: "cf_credentials \<Rightarrow> bool" where
  "missing_credentials ks =
     (\<not> truthy (secretId ks) \<or> \<not> truthy (secretKey ks) \<or> \<not> truthy (accountTag ks)
      \<or> \<not> truthy (zonetag ks))"

text \<open>
  \<open>traffic\<close> is the handler: from the parameter \<open>parse\<close> (\<^verbatim>\<open>Date.parse\<close>), the clock,
  the credentials, the query parameters and the replies the two upstream requests would
  get, to the response and the list of the upstream requests made. An inherited key is
  truthy in \<^verbatim>\<open>ZONE_TOPN_CONFIG\<close> already, so the lookup in \<^verbatim>\<open>METRIC_MAP\<close> never
  meets one.
\<close>

definition traffic ::
  "(string \<Rightarrow> int option) \<Rightarrow> int \<Rightarrow> cf_credentials \<Rightarrow> query \<Rightarrow> fetched \<Rightarrow> fetched
    \<Rightarrow> outcome \<times> call list" where
  "traffic parse now ks q zones_reply graphql_reply =
     (if missing_credentials ks then
        (Sent (Response 401 (error_body ''Missing credentials'')), [])
      else
        case js_lookup ZONE_TOPN_CONFIG (to_string (metric q)) of
          Own targetField \<Rightarrow> topn_branch parse now ks q targetField graphql_reply
        | Inherited \<Rightarrow>
            topn_branch parse now ks q (prototype_text (to_string (metric q))) graphql_reply
        | Undefined \<Rightarrow>
            (case js_lookup METRIC_MAP (to_string (metric q)) of
               Undefined \<Rightarrow> (Sent (Response 400 (error_body ''Invalid metric'')), [])
             | Inherited \<Rightarrow> (Unmodelled, [])
             | Own config \<Rightarrow>
                 (case getTimeConfig parse now (startTime q) (endTime q) of
                    Inl err \<Rightarrow> (respond (Throw err), [])
                  | Inr timeCfg \<Rightarrow>
                      if scope config = Zone
                      then zone_branch ks timeCfg config zones_reply graphql_reply
                      else account_branch parse ks q timeCfg config graphql_reply)))"

section \<open>Edge adapter: the request signer\<close>

subsection \<open>\<^verbatim>\<open>percentEncode\<close>\<close>

fun starts_with :: "string \<Rightarrow> string \<Rightarrow> bool" where
  "starts_with [] s = True"
| "starts_with (p # ps) [] = False"
| "starts_with (p # ps) (c # cs) = (p = c \<and> starts_with ps cs)"

text \<open>\<^verbatim>\<open>s.replace(/pat/g, rep)\<close> for a literal, non-empty pattern.\<close>

function replace_all :: "string \<Rightarrow> string \<Rightarrow> string \<Rightarrow> string" where
  "replace_all pat rep [] = []"
| "replace_all pat rep (c # cs) =
     (if pat \<noteq> [] \<and> starts_with pat (c # cs)
      then rep @ replace_all pat rep (drop (length pat - 1) cs)
      else c # replace_all pat rep cs)"
  by pat_completeness auto
termination
  by (relation "measure (\<lambda>(pat, rep, s). length s)") auto

text \<open>
  \<^verbatim>\<open>TextEncoder.encode\<close>: the UTF-8 bytes of a string. A code unit below 128 is one
  byte, a code unit from 128 to 255 two.
\<close>

definition utf8 :: "char \<Rightarrow> char list" where
  "utf8 c =
     (if (of_char c :: int) < 128 then [c]
      else [char_of (192 + (of_char c :: int) div 64),
            char_of (128 + (of_char c :: int) mod 64)])"

definition encode :: "string \<Rightarrow> char list" where
  "encode s = concat (map utf8 s)"

text \<open>
  \<^verbatim>\<open>encodeURIComponent\<close>: the unreserved characters stay, every other character
  becomes \<^verbatim>\<open>%XX\<close>, with upper-case digits, for each of its UTF-8 bytes.
\<close>

definition unreserved :: "char \<Rightarrow> bool" where
  "unreserved c =
     (c \<in> set (''ABCDEFGHIJKLMNOPQRSTUVWXYZabcdefghijklmnopqrstuvwxyz0123456789-_.!~*()''
               @ [CHR 0x27]))"

definition hex_digit :: "int \<Rightarrow> char" where
  "hex_digit n = ''0123456789ABCDEF'' ! nat n"

definition percent :: "char \<Rightarrow> string" where
  "percent c = [CHR ''%'', hex_digit (of_char c div 16), hex_digit (of_char c mod 16)]"

definition encodeURIComponent :: "string \<Rightarrow> string" where
  "encodeURIComponent s =
     concat (map (\<lambda>c. if unreserved c then [c] else concat (map percent (utf8 c))) s)"

definition percentEncode :: "string \<Rightarrow> string" where
  "percentEncode s =
     replace_all ''%7E'' ''~''
       (replace_all ''*'' ''%2A'' (replace_all ''+'' ''%20'' (encodeURIComponent s)))"

subsection \<open>SHA-1, HMAC and base64 (\<^verbatim>\<open>crypto.subtle.sign\<close>, \<^verbatim>\<open>btoa\<close>)\<close>

text \<open>
  FIPS 180-4 and RFC 2104 on byte strings. The bytes of the signature, turned into a
  string by \<^verbatim>\<open>String.fromCharCode\<close>, are the code units \<^verbatim>\<open>btoa\<close> reads.
\<close>

type_synonym word32 = "32 word"

definition rotl :: "nat \<Rightarrow> word32 \<Rightarrow> word32" where
  "rotl n w = push_bit n w OR drop_bit (32 - n) w"

definition be_word :: "char list \<Rightarrow> word32" where
  "be_word bs = word_of_int (foldl (\<lambda>acc c. acc * 256 + of_char c) 0 bs)"

fun be_bytes :: "nat \<Rightarrow> int \<Rightarrow> char list" where
  "be_bytes 0 n = []"
| "be_bytes (Suc k) n = be_bytes k (n div 256) @ [char_of (n mod 256)]"

fun chunks :: "nat \<Rightarrow> 'a list \<Rightarrow> 'a list list" where
  "chunks n [] = []"
| "chunks n (x # xs) = take n (x # xs) # chunks n (drop (n - 1) xs)"

definition sha1_pad :: "char list \<Rightarrow> char list" where
  "sha1_pad m =
     m @ [char_of (128::int)]
       @ replicate (nat ((119 - int (length m)) mod 64)) (char_of (0::int))
       @ be_bytes 8 (8 * int (length m))"

fun schedule :: "nat \<Rightarrow> word32 list \<Rightarrow> word32 list" where
  "schedule 0 w = w"
| "schedule (Suc n) w =
     schedule n
       (w @ [rotl 1 (w ! (length w - 3) XOR w ! (length w - 8) XOR w ! (length w - 14)
                     XOR w ! (length w - 16))])"

definition sha1_f :: "nat \<Rightarrow> word32 \<Rightarrow> word32 \<Rightarrow> word32 \<Rightarrow> word32" where
  "sha1_f t b c d =
     (if t < 20 then (b AND c) OR (NOT b AND d)
      else if t < 40 then b XOR c XOR d
      else if t < 60 then (b AND c) OR (b AND d) OR (c AND d)
      else b XOR c XOR d)"

definition sha1_k :: "nat \<Rightarrow> word32" where
  "sha1_k t =
     (if t < 20 then 0x5A827999 else if t < 40 then 0x6ED9EBA1
      else if t < 60 then 0x8F1BBCDC else 0xCA62C1D6)"

type_synonym sha1_state = "word32 \<times> word32 \<times> word32 \<times> word32 \<times> word32"

fun sha1_round :: "sha1_state \<Rightarrow> nat \<times> word32 \<Rightarrow> sha1_state" where
  "sha1_round (a, b, c, d, e) (t, w) =
     (rotl 5 a + sha1_f t b c d + e + sha1_k t + w, a, rotl 30 b, c, d)"

fun sha1_add :: "sha1_state \<Rightarrow> sha1_state \<Rightarrow> sha1_state" where
  "sha1_add (a, b, c, d, e) (a', b', c', d', e') = (a + a', b + b', c + c', d + d', e + e')"

definition sha1_block :: "sha1_state \<Rightarrow> char list \<Rightarrow> sha1_state" where
  "sha1_block h blk =
     sha1_add h (foldl sha1_round h (zip [0..<80] (schedule 64 (map be_word (chunks 4 blk)))))"

fun state_bytes :: "sha1_state \<Rightarrow> char list" where
  "state_bytes (a, b, c, d, e) = concat (map (\<lambda>w. be_bytes 4 (uint w)) [a, b, c, d, e])"

definition sha1 :: "char list \<Rightarrow> char list" where
  "sha1 m =
     state_bytes
       (foldl sha1_block (0x67452301, 0xEFCDAB89, 0x98BADCFE, 0x10325476, 0xC3D2E1F0)
          (chunks 64 (sha1_pad m)))"

definition xor_byte :: "int \<Rightarrow> char \<Rightarrow> char" where
  "xor_byte p c = char_of ((of_char c :: int) XOR p)"

definition hmac_sha1 :: "char list \<Rightarrow> char list \<Rightarrow> char list" where
  "hmac_sha1 k m =
     (let k0 = (if length k > 64 then sha1 k else k);
          kp = k0 @ replicate (64 - length k0) (char_of (0::int))
      in sha1 (map (xor_byte 0x5C) kp @ sha1 (map (xor_byte 0x36) kp @ m)))"

definition base64_char :: "int \<Rightarrow> char" where
  "base64_char n =
     ''ABCDEFGHIJKLMNOPQRSTUVWXYZabcdefghijklmnopqrstuvwxyz0123456789+/'' ! nat n"

fun btoa :: "char list \<Rightarrow> char list" where
  "btoa [] = []"
| "btoa [a] =
     (let n = of_char a * 16 :: int
      in [base64_char (n div 64), base64_char (n mod 64), CHR ''='', CHR ''=''])"
| "btoa [a, b] =
     (let n = (of_char a * 256 + of_char b) * 4 :: int
      in [base64_char (n div 4096), base64_char (n div 64 mod 64),
          base64_char (n mod 64), CHR ''=''])"
| "btoa (a # b # c # rest) =
     (let n = (of_char a * 256 + of_char b) * 256 + of_char c :: int
      in [base64_char (n div 262144), base64_char (n div 4096 mod 64),
          base64_char (n div 64 mod 64), base64_char (n mod 64)] @ btoa rest)"

definition calculateSignature :: "string \<Rightarrow> string \<Rightarrow> string" where
  "calculateSignature key stringToSign =
     btoa (hmac_sha1 (encode (key @ ''&'')) (encode stringToSign))"

subsection \<open>The parameters and the string to sign\<close>

record esa_query = query +
  interval :: "string option"
  Limit :: "string option"
  siteId :: "string option"

text \<open>\<^verbatim>\<open>d.toISOString().slice(0, 19) + 'Z'\<close>\<close>

definition formatISO :: "int \<Rightarrow> js_error + string" where
  "formatISO t =
     (case toISOString t of Inl err \<Rightarrow> Inl err | Inr s \<Rightarrow> Inr (take 19 s @ ''Z''))"

text \<open>
  \<^verbatim>\<open>JSON.stringify([{ FieldName: config.field, Dimension: [config.dimension] }])\<close>;
  the names of the registry need no escaping.
\<close>

definition fields_json :: "esa_config \<Rightarrow> string" where
  \<open>fields_json config =
     ''[{''
     @ (case field config of None \<Rightarrow> [] | Some f \<Rightarrow> ''"FieldName":"'' @ f @ ''",'')
     @ ''"Dimension":[''
     @ (case esa_dimension config of None \<Rightarrow> ''null'' | Some d \<Rightarrow> ''"'' @ d @ ''"'')
     @ '']}]''\<close>

text \<open>
  The parameter object, in the order of the literal. A value that is
  \<^verbatim>\<open>undefined\<close> (the action or dimension of an inherited descriptor) is written as
  the string the encoders make of it. \<open>nonce\<close> is the value of
  \<^verbatim>\<open>Math.random().toString(36).substring(2) + Date.now()\<close>.
\<close>

definition param_list ::
  "string \<Rightarrow> esa_config \<Rightarrow> esa_query \<Rightarrow> string \<Rightarrow> string \<Rightarrow> string \<Rightarrow> (string \<times> string) list"
  where
  "param_list accessKey config q nonce stamp dayBefore =
     [(''AccessKeyId'', accessKey),
      (''Action'', to_string (action config)),
      (''EndTime'', js_or (endTime q) stamp),
      (''Fields'', fields_json config),
      (''Format'', ''json''),
      (''Interval'', js_or (interval q) ''60''),
      (''Limit'', js_or (Limit q) ''10''),
      (''Metric'', to_string (esa_dimension config)),
      (''SignatureMethod'', ''HMAC-SHA1''),
      (''SignatureNonce'', nonce),
      (''SignatureVersion'', ''1.0''),
      (''SiteId'', js_or (siteId q) []),
      (''StartTime'', js_or (startTime q) dayBefore),
      (''Timestamp'', stamp),
      (''Version'', ''2024-09-10'')]"

definition esa_params ::
  "int \<Rightarrow> string \<Rightarrow> string \<Rightarrow> esa_config \<Rightarrow> esa_query
    \<Rightarrow> js_error + (string \<times> string) list" where
  "esa_params now nonce accessKey config q =
     (case formatISO now of
        Inl err \<Rightarrow> Inl err
      | Inr stamp \<Rightarrow>
          (case (if truthy (startTime q) then Inr []
                 else formatISO (now - 24 * 60 * 60 * 1000)) of
             Inl err \<Rightarrow> Inl err
           | Inr dayBefore \<Rightarrow> Inr (param_list accessKey config q nonce stamp dayBefore)))"

fun join :: "string \<Rightarrow> string list \<Rightarrow> string" where
  "join sep [] = []"
| "join sep [x] = x"
| "join sep (x # y # ys) = x @ sep @ join sep (y # ys)"

text \<open>\<^verbatim>\<open>params[key]\<close>\<close>

definition param :: "(string \<times> string) list \<Rightarrow> string \<Rightarrow> string" where
  "param params k = (case map_of params k of None \<Rightarrow> ''undefined'' | Some v \<Rightarrow> v)"

text \<open>
  \<^verbatim>\<open>Object.keys(params).sort().map(key => ...).join('&')\<close>: the default sort orders
  strings by their character codes.
\<close>

definition canonicalizedQuery :: "(string \<times> string) list \<Rightarrow> string" where
  "canonicalizedQuery params =
     join ''&''
       (map (\<lambda>k. percentEncode k @ ''='' @ percentEncode (param params k))
          (js_sort code_unit_compare (map fst params)))"

definition stringToSign :: "(string \<times> string) list \<Rightarrow> string" where
  "stringToSign params =
     ''GET&'' @ percentEncode ''/'' @ ''&'' @ percentEncode (canonicalizedQuery params)"

definition signature :: "string \<Rightarrow> (string \<times> string) list \<Rightarrow> string" where
  "signature key params = calculateSignature key (stringToSign params)"

subsection \<open>The request\<close>

text \<open>
  \<^verbatim>\<open>new URLSearchParams(params)\<close> in a template: the
  \<^verbatim>\<open>application/x-www-form-urlencoded\<close> serialisation.
\<close>

definition form_byte :: "char \<Rightarrow> string" where
  "form_byte c =
     (if c \<in> set ''ABCDEFGHIJKLMNOPQRSTUVWXYZabcdefghijklmnopqrstuvwxyz0123456789*-._''
      then [c]
      else if c = CHR '' '' then ''+''
      else percent c)"

definition URLSearchParams :: "(string \<times> string) list \<Rightarrow> string" where
  "URLSearchParams params =
     join ''&'' (map (\<lambda>kv. concat (map form_byte (encode (fst kv))) @ ''=''
                            @ concat (map form_byte (encode (snd kv)))) params)"

definition signed_call :: "string \<Rightarrow> (string \<times> string) list \<Rightarrow> call" where
  "signed_call key params =
     \<lparr>http_method = ''GET'',
      url = ''https://esa.cn-hangzhou.aliyuncs.com/?''
            @ URLSearchParams (params @ [(''Signature'', signature key params)]),
      headers = [],
      body = None\<rparr>"

section \<open>Edge adapter: the handler of \<^verbatim>\<open>GET /traffic\<close>\<close>

text \<open>Assignment to and deletion of a property of a parsed object.\<close>

definition set_member :: "string \<Rightarrow> json \<Rightarrow> (string \<times> json) list \<Rightarrow> (string \<times> json) list"
  where
  "set_member k v ms =
     (if k \<in> fst ` set ms then map (\<lambda>m. if fst m = k then (k, v) else m) ms
      else ms @ [(k, v)])"

definition delete_member :: "string \<Rightarrow> (string \<times> json) list \<Rightarrow> (string \<times> json) list" where
  "delete_member k ms = filter (\<lambda>m. fst m \<noteq> k) ms"

text \<open>
  \<^verbatim>\<open>x || 0\<close> on a value of the payload.
\<close>

definition or_zero :: "json option \<Rightarrow> json" where
  "or_zero v = (case v of None \<Rightarrow> JNum 0 | Some x \<Rightarrow> if js_truthy v then x else JNum 0)"

text \<open>
  The time-series branch. A time stamp is taken to be a string or a number;
  \<^verbatim>\<open>Math.floor(new Date(x).getTime() / 1000)\<close> is NaN (sent as \<^verbatim>\<open>null\<close>) when
  the date is invalid.
\<close>

definition ts_stamp :: "(string \<Rightarrow> int option) \<Rightarrow> json option \<Rightarrow> json result" where
  "ts_stamp parse t =
     (if \<not> js_truthy t then Ok (JNum 0)
      else case t of
             Some (JStr s) \<Rightarrow>
               Ok (case epoch_second parse s of None \<Rightarrow> JNull | Some n \<Rightarrow> JNum n)
           | Some (JNum n) \<Rightarrow> Ok (if valid_time n then JNum (n div 1000) else JNull)
           | _ \<Rightarrow> Off_schema)"

definition ts_point :: "(string \<Rightarrow> int option) \<Rightarrow> json \<Rightarrow> json result" where
  "ts_point parse it =
     bind (member (Some it) ''Value'') (\<lambda>v.
     bind (member (Some it) ''TimeStamp'') (\<lambda>t.
     bind (ts_stamp parse t) (\<lambda>stamp.
       Ok (JObj [(''Value'', or_zero v), (''Timestamp'', stamp)]))))"

definition ts_transform ::
  "(string \<Rightarrow> int option) \<Rightarrow> string option \<Rightarrow> json \<Rightarrow> json option \<Rightarrow> json result" where
  "ts_transform parse metricKey apiData dataList =
     bind (member dataList ''0'') (\<lambda>first.
     bind (member first ''DetailData'') (\<lambda>dd.
     bind (elements ''(apiData.Data[0].DetailData || [])'' ''map''
             (if js_truthy dd then dd else Some (JArr []))) (\<lambda>items.
     bind (map_result (ts_point parse) items) (\<lambda>detailList.
     bind (opt_member (Some apiData) ''SummarizedData'') (\<lambda>sd.
     bind (opt_member sd ''0'') (\<lambda>s0.
     bind (opt_member s0 ''Value'') (\<lambda>sv.
       case (apiData, dataList) of
         (JObj ms, Some (JArr (JObj fm # rest))) \<Rightarrow>
           Ok (JObj (delete_member ''SummarizedData''
                 (set_member ''Data''
                    (JArr (JObj (delete_member ''DetailData''
                             (set_member ''TypeValue''
                                (JArr [object [(''MetricName'', map_option JStr metricKey),
                                               (''Sum'', Some (or_zero sv)),
                                               (''Detail'', Some (JArr detailList))]])
                                fm))
                           # rest))
                    ms)))
       | _ \<Rightarrow> Off_schema)))))))"

text \<open>
  The Top-N branch:
  \<^verbatim>\<open>{Value: item.Value, Key: item.DimensionValue, ...(item.TimeStamp && {TimeStamp})}\<close>
  for every item of every \<^verbatim>\<open>DetailData\<close> that is an array, in the order received.
\<close>

definition top_item :: "json \<Rightarrow> json result" where
  "top_item it =
     bind (member (Some it) ''Value'') (\<lambda>v.
     bind (member (Some it) ''DimensionValue'') (\<lambda>k.
     bind (member (Some it) ''TimeStamp'') (\<lambda>t.
       Ok (object [(''Value'', v), (''Key'', k),
                   (''TimeStamp'', if js_truthy t then t else None)]))))"

definition top_data_item :: "json \<Rightarrow> json result" where
  "top_data_item dataItem =
     bind (member (Some dataItem) ''DetailData'') (\<lambda>dd.
       case (dd, dataItem) of
         (Some (JArr items), JObj ms) \<Rightarrow>
           bind (map_result top_item items) (\<lambda>mapped.
             Ok (JObj (set_member ''DetailData'' (JArr mapped) ms)))
       | _ \<Rightarrow> Ok dataItem)"

definition top_transform :: "json \<Rightarrow> json option \<Rightarrow> json result" where
  "top_transform apiData dataList =
     (case (apiData, dataList) of
        (JObj ms, Some (JArr items)) \<Rightarrow>
          bind (map_result top_data_item items) (\<lambda>mapped.
            Ok (JObj (set_member ''Data'' (JArr mapped) ms)))
      | _ \<Rightarrow> Off_schema)"

text \<open>\<^verbatim>\<open>if (apiData.Data && apiData.Data.length > 0) { ... }\<close>\<close>

definition esa_transform ::
  "(string \<Rightarrow> int option) \<Rightarrow> esa_config \<Rightarrow> string option \<Rightarrow> json \<Rightarrow> json result" where
  "esa_transform parse config metricKey apiData =
     bind (member (Some apiData) ''Data'') (\<lambda>dataList.
       if \<not> js_truthy dataList then Ok apiData
       else
         bind (member dataList ''length'') (\<lambda>len.
           case len of
             None \<Rightarrow> Ok apiData
           | Some (JNum n) \<Rightarrow>
               if n > 0 then
                 (if esa_type config = Some ''TS''
                  then ts_transform parse metricKey apiData dataList
                  else top_transform apiData dataList)
               else Ok apiData
           | _ \<Rightarrow> Off_schema))"

definition esa_reply ::
  "(string \<Rightarrow> int option) \<Rightarrow> esa_config \<Rightarrow> string option \<Rightarrow> fetched \<Rightarrow> response result"
  where
  "esa_reply parse config metricKey reply =
     (case reply of
        Rejected err \<Rightarrow> Throw err
      | Resolved r \<Rightarrow>
          if \<not> ok r then
            Ok (Response (status r)
                  (JObj [(''error'', JStr ''Aliyun API error''),
                         (''detail'', JStr (body_text r))]))
          else
            bind (lift (body_json r)) (\<lambda>apiData.
            bind (esa_transform parse config metricKey apiData) (\<lambda>shaped.
              Ok (Response 200 shaped))))"

text \<open>The \<^verbatim>\<open>catch\<close> block of the edge handler.\<close>

definition esa_respond :: "response result \<Rightarrow> outcome" where
  "esa_respond r =
     (case r of
        Ok resp \<Rightarrow> Sent resp
      | Throw err \<Rightarrow> Sent (Response 500 (error_body (''Server error: '' @ message err)))
      | Off_schema \<Rightarrow> Unmodelled)"

text \<open>A descriptor found on \<^verbatim>\<open>Object.prototype\<close> has none of the four properties.\<close>

definition inherited_config :: esa_config where
  "inherited_config = \<lparr>action = None, field = None, esa_dimension = None, esa_type = None\<rparr>"

definition esa_traffic ::
  "(string \<Rightarrow> int option) \<Rightarrow> int \<Rightarrow> string \<Rightarrow> credentials \<Rightarrow> esa_query \<Rightarrow> fetched
    \<Rightarrow> outcome \<times> call list" where
  "esa_traffic parse now nonce ks q reply =
     (if \<not> truthy (secretId ks) \<or> \<not> truthy (secretKey ks) then
        (Sent (Response 500 (error_body ''Missing credentials'')), [])
      else
        case js_lookup METRIC_CONFIG (to_string (metric q)) of
          Undefined \<Rightarrow> (Sent (Response 400 (error_body ''Invalid metric parameter'')), [])
        | found \<Rightarrow>
            let config = (case found of Own c \<Rightarrow> c | _ \<Rightarrow> inherited_config) in
            case esa_params now nonce (to_string (secretId ks)) config q of
              Inl err \<Rightarrow> (esa_respond (Throw err), [])
            | Inr params \<Rightarrow>
                (esa_respond (esa_reply parse config (metric q) reply),
                 [signed_call (to_string (secretKey ks)) params]))"

section \<open>Vocabulary of the statements\<close>

text \<open>The number stored under a key of an object, \<open>0\<close> when there is none.\<close>

definition total :: "('k \<times> int) list \<Rightarrow> 'k \<Rightarrow> int" where
  "total m k = (case map_of m k of None \<Rightarrow> 0 | Some w \<Rightarrow> w)"


text \<open>\<open>contains p s\<close>: the text \<open>p\<close> occurs in \<open>s\<close>.\<close>

fun contains :: "string \<Rightarrow> string \<Rightarrow> bool" where
  "contains p [] = (p = [])"
| "contains p (c # cs) = (starts_with p (c # cs) \<or> contains p cs)"

text \<open>The filter clause of the zone-scope query, as the template lays it out.\<close>

definition filter_clause :: "string \<Rightarrow> string" where
  "filter_clause dimKey =
     ''filter: { \<newline>'' @ ''                        '' @ dimKey @ ''_geq: $from\<newline>''
     @ ''                    },''"

chapter \<open>Properties\<close>

section \<open>Calendar arithmetic\<close>

lemma div_step:
  fixes x n :: int
  assumes "0 < n"
  shows "(x + 1) div n = x div n + (if (x + 1) mod n = 0 then 1 else 0)"
proof -
  have nonneg: "0 \<le> x mod n" and below: "x mod n < n"
    using assms by simp_all
  show ?thesis
  proof (cases "x mod n + 1 = n")
    case True
    have "x + 1 = n * (x div n) + (x mod n + 1)" by simp
    also have "\<dots> = n * (x div n + 1) + 0" using True by (simp add: algebra_simps)
    finally have eq: "x + 1 = n * (x div n + 1) + 0" .
    have "(x + 1) div n = x div n + 1"
      by (rule int_div_pos_eq [OF eq]) (use assms in simp_all)
    moreover have "(x + 1) mod n = 0"
      by (rule int_mod_pos_eq [OF eq]) (use assms in simp_all)
    ultimately show ?thesis by simp
  next
    case False
    have r: "0 \<le> x mod n + 1" "x mod n + 1 < n"
      using False nonneg below by linarith+
    have eq: "x + 1 = n * (x div n) + (x mod n + 1)" by simp
    have "(x + 1) div n = x div n"
      by (rule int_div_pos_eq [OF eq r])
    moreover have "(x + 1) mod n = x mod n + 1"
      by (rule int_mod_pos_eq [OF eq r])
    ultimately show ?thesis using nonneg by simp
  qed
qed

lemma shift4: "((y::int) - 1968) mod 4 = y mod 4"
proof -
  have "y - 1968 = y + 4 * (- 492)" by simp
  then show ?thesis by (simp only: mod_mult_self2)
qed

lemma shift100: "((y::int) - 1900) mod 100 = y mod 100"
proof -
  have "y - 1900 = y + 100 * (- 19)" by simp
  then show ?thesis by (simp only: mod_mult_self2)
qed

lemma shift400: "((y::int) - 1600) mod 400 = y mod 400"
proof -
  have "y - 1600 = y + 400 * (- 4)" by simp
  then show ?thesis by (simp only: mod_mult_self2)
qed

lemma quarter_step:
  fixes y k n :: int
  assumes n: "0 < n" and k: "(y - (k - 1)) mod n = y mod n"
  shows "(y + 1 - k) div n = (y - k) div n + (if y mod n = 0 then 1 else 0)"
proof -
  have e: "y + 1 - k = (y - k) + 1" "(y - k) + 1 = y - (k - 1)" by simp_all
  show ?thesis
    using div_step [OF n, of "y - k"] unfolding e(1) unfolding e(2) k .
qed

lemma DayFromYear_step:
  "DayFromYear (y + 1) =
     DayFromYear y + 365 + (if y mod 4 = 0 \<and> (y mod 100 \<noteq> 0 \<or> y mod 400 = 0) then 1 else 0)"
proof -
  have a: "(y + 1 - 1969) div 4 = (y - 1969) div 4 + (if y mod 4 = 0 then 1 else 0)"
    by (rule quarter_step) (simp_all add: shift4)
  have b: "(y + 1 - 1901) div 100 = (y - 1901) div 100 + (if y mod 100 = 0 then 1 else 0)"
    by (rule quarter_step) (simp_all add: shift100)
  have c: "(y + 1 - 1601) div 400 = (y - 1601) div 400 + (if y mod 400 = 0 then 1 else 0)"
    by (rule quarter_step) (simp_all add: shift400)
  have d1: "y mod 100 = 0" if "y mod 400 = 0"
    using that mod_mod_cancel [of 100 400 y] by simp
  have d2: "y mod 4 = 0" if "y mod 100 = 0"
    using that mod_mod_cancel [of 4 100 y] by simp
  define A where "A = (y - 1969) div 4"
  define B where "B = (y - 1901) div 100"
  define C where "C = (y - 1601) div 400"
  have "DayFromYear (y + 1) = 365 * (y + 1 - 1970) + (y + 1 - 1969) div 4
      - (y + 1 - 1901) div 100 + (y + 1 - 1601) div 400"
    by (simp only: DayFromYear_def)
  also have "\<dots> = 365 * (y + 1 - 1970) + (A + (if y mod 4 = 0 then 1 else 0))
      - (B + (if y mod 100 = 0 then 1 else 0)) + (C + (if y mod 400 = 0 then 1 else 0))"
    by (simp only: a b c A_def B_def C_def)
  also have "\<dots> = (365 * (y - 1970) + A - B + C) + 365
      + (if y mod 4 = 0 \<and> (y mod 100 \<noteq> 0 \<or> y mod 400 = 0) then 1 else 0)"
    using d1 d2 by (cases "y mod 4 = 0"; cases "y mod 100 = 0"; cases "y mod 400 = 0") simp_all
  finally show ?thesis by (simp only: DayFromYear_def A_def B_def C_def)
qed

lemma div_bounds:
  fixes x n :: int
  assumes "0 < n"
  shows "n * (x div n) \<le> x" "x \<le> n * (x div n) + (n - 1)"
proof -
  have "0 \<le> x mod n" "x mod n < n" using assms by simp_all
  moreover have "x = n * (x div n) + x mod n" by simp
  ultimately show "n * (x div n) \<le> x" "x \<le> n * (x div n) + (n - 1)" by linarith+
qed

lemma DayFromYear_bounds:
  "146097 * (y - 1970) - 506 \<le> 400 * DayFromYear y"
  "400 * DayFromYear y \<le> 146097 * (y - 1970) + 589"
proof -
  define a where "a = (y - 1969) div 4"
  define b where "b = (y - 1901) div 100"
  define c where "c = (y - 1601) div 400"
  have d: "DayFromYear y = 365 * (y - 1970) + a - b + c"
    by (simp add: DayFromYear_def a_def b_def c_def)
  have f: "4 * a \<le> y - 1969" "y - 1969 \<le> 4 * a + 3"
    "100 * b \<le> y - 1901" "y - 1901 \<le> 100 * b + 99"
    "400 * c \<le> y - 1601" "y - 1601 \<le> 400 * c + 399"
    unfolding a_def b_def c_def
    using div_bounds [of 4 "y - 1969"] div_bounds [of 100 "y - 1901"]
      div_bounds [of 400 "y - 1601"] by simp_all
  show "146097 * (y - 1970) - 506 \<le> 400 * DayFromYear y"
    unfolding d using f(2,3,6) by (simp add: algebra_simps)
  show "400 * DayFromYear y \<le> 146097 * (y - 1970) + 589"
    unfolding d using f(1,4,5) by (simp add: algebra_simps)
qed

lemma YearFromDay_bracket:
  "DayFromYear (YearFromDay d) \<le> d" "d < DayFromYear (YearFromDay d + 1)"
proof -
  define y where "y = 1970 + (400 * d) div 146097"
  have q: "146097 * (y - 1970) \<le> 400 * d" "400 * d \<le> 146097 * (y - 1970) + 146096"
    using div_bounds [of 146097 "400 * d"] by (simp_all add: y_def)
  have up: "d < DayFromYear (y + 2)"
  proof -
    have "400 * d < 400 * DayFromYear (y + 2)"
      using q(2) DayFromYear_bounds(1) [of "y + 2"] by (simp add: algebra_simps)
    then show ?thesis by simp
  qed
  have low: "DayFromYear (y - 1) \<le> d"
  proof -
    have "400 * DayFromYear (y - 1) \<le> 400 * d"
      using q(1) DayFromYear_bounds(2) [of "y - 1"] by (simp add: algebra_simps)
    then show ?thesis by simp
  qed
  have two: "y + 1 + 1 = y + 2" by simp
  show "DayFromYear (YearFromDay d) \<le> d"
    using low by (simp add: YearFromDay_def Let_def y_def [symmetric])
  show "d < DayFromYear (YearFromDay d + 1)"
    using up by (simp add: YearFromDay_def Let_def y_def [symmetric] two)
qed


lemma DayFromYear_mono:
  assumes "y \<le> z"
  shows "DayFromYear y \<le> DayFromYear z"
  using assms
proof (induction z rule: int_ge_induct)
  case base
  show ?case by simp
next
  case (step i)
  have "DayFromYear i \<le> DayFromYear (i + 1)"
    by (simp add: DayFromYear_step)
  with step show ?case by linarith
qed

lemma sum_month_lengths:
  "sum_list (month_lengths y) = DayFromYear (y + 1) - DayFromYear y"
  by (simp add: month_lengths_def DayFromYear_step InLeapYear_def)

lemma MonthDate_spec:
  assumes "0 \<le> d" "d < sum_list lens" "MonthDate lens m d = (m', dd)"
  shows "m \<le> m' \<and> m' < m + int (length lens) \<and> 1 \<le> dd \<and> dd \<le> lens ! nat (m' - m)
         \<and> sum_list (take (nat (m' - m)) lens) + dd - 1 = d"
  using assms
proof (induction lens arbitrary: m d)
  case Nil
  then show ?case by simp
next
  case (Cons len rest)
  show ?case
  proof (cases "d < len")
    case True
    with Cons.prems show ?thesis by auto
  next
    case False
    with Cons.prems have rec: "MonthDate rest (m + 1) (d - len) = (m', dd)" by simp
    have "0 \<le> d - len" "d - len < sum_list rest" using False Cons.prems by simp_all
    from Cons.IH [OF this rec]
    have ih: "m + 1 \<le> m'" "m' < m + 1 + int (length rest)" "1 \<le> dd"
      "dd \<le> rest ! nat (m' - (m + 1))"
      "sum_list (take (nat (m' - (m + 1))) rest) + dd - 1 = d - len"
      by simp_all
    have k: "nat (m' - m) = Suc (nat (m' - (m + 1)))" using ih(1) by simp
    show ?thesis using ih by (simp add: k)
  qed
qed

lemma digit_roundtrip:
  assumes "0 \<le> n" "n < 10"
  shows "digit_val (digit_char n) = Some n"
proof -
  have "n \<in> set [0, 1, 2, 3, 4, 5, 6, 7, 8, 9]" using assms by simp arith
  then have "list_ex (\<lambda>k. n = k) [0, 1, 2, 3, 4, 5, 6, 7, 8, 9]"
    by (simp only: list_ex_iff) blast
  then show ?thesis
    by (auto simp: digit_val_def digit_char_def)
qed

lemma length_pad [simp]: "length (pad k n) = k"
  by (induction k arbitrary: n) simp_all

lemma number_from_append:
  "number_from acc (xs @ ys) =
     (case number_from acc xs of None \<Rightarrow> None | Some a \<Rightarrow> number_from a ys)"
  by (induction xs arbitrary: acc) (simp_all split: option.splits)

lemma number_from_pad:
  assumes "0 \<le> n" "n < 10 ^ k"
  shows "number_from acc (pad k n) = Some (acc * 10 ^ k + n)"
  using assms
proof (induction k arbitrary: n)
  case 0
  then show ?case by simp
next
  case (Suc k)
  have "10 * (n div 10) \<le> n" by (rule div_bounds(1)) simp
  moreover have "n < 10 * 10 ^ k" using Suc.prems(2) by simp
  ultimately have "10 * (n div 10) < 10 * 10 ^ k" by linarith
  then have a: "0 \<le> n div 10" "n div 10 < 10 ^ k"
    using Suc.prems(1) by (simp_all add: pos_imp_zdiv_nonneg_iff)
  have b: "0 \<le> n mod 10" "n mod 10 < 10" by simp_all
  show ?case
    by (simp add: number_from_append Suc.IH [OF a] digit_roundtrip [OF b] algebra_simps)
qed

lemma number_pad:
  assumes "0 \<le> n" "n < 10 ^ k"
  shows "number (pad k n) = Some n"
  using number_from_pad [OF assms, of 0] by (simp add: number_def)

lemma month_lengths_le:
  assumes "k < 12"
  shows "month_lengths y ! k \<le> 31" "1 \<le> month_lengths y ! k"
proof -
  have "\<forall>x \<in> set (month_lengths y). 1 \<le> x \<and> x \<le> 31"
    by (simp add: month_lengths_def)
  moreover have "month_lengths y ! k \<in> set (month_lengths y)"
    using assms by (intro nth_mem) (simp add: month_lengths_def)
  ultimately show "month_lengths y ! k \<le> 31" "1 \<le> month_lengths y ! k" by blast+
qed

lemma iso_date_format:
  assumes "0 \<le> y" "y \<le> 9999" "1 \<le> m" "m \<le> 12" "1 \<le> d"
    "d \<le> month_lengths y ! nat (m - 1)"
  shows "iso_date (pad 4 y @ ''-'' @ pad 2 m @ ''-'' @ pad 2 d) = Some (MakeDay y m d)"
proof -
  have "nat (m - 1) < 12" using assms(3,4) by linarith
  then have "month_lengths y ! nat (m - 1) \<le> 31" by (rule month_lengths_le(1))
  then have "d \<le> 31" using assms(6) by linarith
  then have n: "number (pad 4 y) = Some y" "number (pad 2 m) = Some m"
    "number (pad 2 d) = Some d"
    using assms by (simp_all add: number_pad)
  show ?thesis
    using assms n by (simp add: iso_date_def nth_append)
qed



lemma zero_time: "iso_time ''00:00:00'' = Some 0"
  by (simp add: iso_time_def number_def digit_val_def)

section \<open>ISO strings: printing and parsing round trip\<close>

lemma four_digit_year_day:
  assumes "four_digit_year t"
  shows "DayFromYear 0 \<le> t div msPerDay" "t div msPerDay < DayFromYear 10000" "valid_time t"
proof -
  have "(- 62167219200000) div 86400000 \<le> t div (86400000::int)"
    using assms by (intro zdiv_mono1) (simp_all add: four_digit_year_def)
  then show "DayFromYear 0 \<le> t div msPerDay"
    by (simp add: DayFromYear_def msPerDay_def)
  have "t div (86400000::int) \<le> 253402300799999 div 86400000"
    using assms by (intro zdiv_mono1) (simp_all add: four_digit_year_def)
  then show "t div msPerDay < DayFromYear 10000"
    by (simp add: DayFromYear_def msPerDay_def)
  show "valid_time t" using assms by (simp add: four_digit_year_def valid_time_def)
qed

lemma four_digit_year_range:
  assumes "DayFromYear 0 \<le> d" "d < DayFromYear 10000"
  shows "0 \<le> YearFromDay d" "YearFromDay d \<le> 9999"
proof -
  show "0 \<le> YearFromDay d"
  proof (rule ccontr)
    assume "\<not> 0 \<le> YearFromDay d"
    then have "YearFromDay d + 1 \<le> 0" by simp
    then have "DayFromYear (YearFromDay d + 1) \<le> DayFromYear 0" by (rule DayFromYear_mono)
    then show False using YearFromDay_bracket(2) [of d] assms(1) by linarith
  qed
  show "YearFromDay d \<le> 9999"
  proof (rule ccontr)
    assume "\<not> YearFromDay d \<le> 9999"
    then have "10000 \<le> YearFromDay d" by simp
    then have "DayFromYear 10000 \<le> DayFromYear (YearFromDay d)" by (rule DayFromYear_mono)
    then show False using YearFromDay_bracket(1) [of d] assms(2) by linarith
  qed
qed

text \<open>The date part of the ISO string of a day.\<close>

lemma date_part:
  assumes "DayFromYear 0 \<le> d" "d < DayFromYear 10000"
  shows "iso_date (date_string d) = Some d" and "length (date_string d) = 10"
proof -
  define y where "y = YearFromDay d"
  define md where "md = MonthDate (month_lengths y) 1 (d - DayFromYear y)"
  have ds: "date_string d = year_string y @ ''-'' @ pad 2 (fst md) @ ''-'' @ pad 2 (snd md)"
    by (simp add: date_string_def Let_def y_def md_def)
  have y: "0 \<le> y" "y \<le> 9999" unfolding y_def by (rule four_digit_year_range [OF assms(1,2)])+
  have ys: "year_string y = pad 4 y" using y by (simp add: year_string_def)
  have br: "0 \<le> d - DayFromYear y" "d - DayFromYear y < sum_list (month_lengths y)"
    using YearFromDay_bracket [of d] by (simp_all add: y_def sum_month_lengths)
  have "MonthDate (month_lengths y) 1 (d - DayFromYear y) = (fst md, snd md)"
    by (simp add: md_def)
  from MonthDate_spec [OF br this]
  have m: "1 \<le> fst md" "fst md \<le> 12" "1 \<le> snd md"
    "snd md \<le> month_lengths y ! nat (fst md - 1)"
    "sum_list (take (nat (fst md - 1)) (month_lengths y)) + snd md - 1 = d - DayFromYear y"
    by (simp_all add: month_lengths_def)
  have "MakeDay y (fst md) (snd md) = d" using m(5) by (simp add: MakeDay_def)
  then show "iso_date (date_string d) = Some d"
    using iso_date_format [OF y m(1-4)] by (simp add: ys ds)
  show "length (date_string d) = 10"
    by (simp add: ys ds)
qed


lemma toISOString_date:
  assumes "four_digit_year t"
  obtains s where "toISOString t = Inr s" "take 10 s = date_string (t div msPerDay)"
proof -
  have v: "valid_time t" by (rule four_digit_year_day(3) [OF assms])
  have l: "length (date_string (t div msPerDay)) = 10"
    by (rule date_part(2) [OF four_digit_year_day(1,2) [OF assms]])
  show thesis
    by (rule that [of "date_string (t div msPerDay) @ ''T'' @ time_string (t mod msPerDay)
                @ ''Z''"]) (simp_all add: toISOString_def v l)
qed



lemma day_start_parse:
  assumes "DayFromYear 0 \<le> d" "d < DayFromYear 10000"
  shows "iso_parse (date_string d @ ''T00:00:00Z'') = Some (d * msPerDay)"
  using date_part [OF assms] zero_time by (simp add: iso_parse_def nth_append)


lemma toISOString_Inr:
  assumes "valid_time t"
  obtains s where "toISOString t = Inr s"
  using assms by (simp add: toISOString_def Let_def)









section \<open>The time window (claim C1)\<close>

lemma bound_or_default:
  assumes "d = Inr s"
  shows "(if truthy v then Inr (js_or v []) else d) = Inr (js_or v s)"
  using assms by (cases v) (auto simp: truthy_def js_or_def)






section \<open>Merging rows into a time series (claim C2)\<close>

lemma js_plus_Some: "js_plus a b = Some c \<Longrightarrow> c = a + b"
  by (simp add: js_plus_def split: if_splits)

lemma js_plus_exact:
  assumes "\<bar>a\<bar> \<le> A" "\<bar>b\<bar> \<le> B" "A + B \<le> 2 ^ 53"
  shows "js_plus a b = Some (a + b)"
proof -
  have "\<bar>a + b\<bar> \<le> 2 ^ 53" "\<bar>a\<bar> \<le> 2 ^ 53" "\<bar>b\<bar> \<le> 2 ^ 53"
    using assms by linarith+
  then show ?thesis by (simp add: js_plus_def safe_integer_def abs_le_iff)
qed

lemma add_to_spec:
  assumes "add_to k v m = Some m'"
  shows "fst ` set m' = insert k (fst ` set m)
    \<and> (distinct (map fst m) \<longrightarrow> distinct (map fst m'))
    \<and> (\<forall>k'. total m' k' = total m k' + (if k' = k then v else 0))
    \<and> sum_list (map snd m') = sum_list (map snd m) + v"
  using assms
proof (induction m arbitrary: m')
  case Nil
  then have "m' = [(k, v)]" by (auto dest: js_plus_Some)
  then show ?case by (simp add: total_def)
next
  case (Cons e m)
  obtain k0 w where e: "e = (k0, w)" by (cases e)
  show ?case
  proof (cases "k0 = k")
    case True
    with Cons.prems e obtain s where
      "js_plus (if w = 0 then 0 else w) v = Some s" "m' = (k0, s) # m"
      by auto
    then have "m' = (k, w + v) # m" using True by (auto dest: js_plus_Some)
    then show ?thesis using True e by (auto simp: total_def)
  next
    case False
    with Cons.prems e obtain r where r: "add_to k v m = Some r" "m' = (k0, w) # r" by auto
    from Cons.IH [OF r(1)] show ?thesis
      using False e r(2) by (auto simp: total_def insert_commute)
  qed
qed

lemma add_to_exact:
  assumes "\<forall>e\<in>set m. \<bar>snd e\<bar> \<le> A" "\<bar>v\<bar> \<le> B" "0 \<le> A" "A + B \<le> 2 ^ 53"
  shows "\<exists>m'. add_to k v m = Some m' \<and> (\<forall>e\<in>set m'. \<bar>snd e\<bar> \<le> A + B)"
  using assms(1)
proof (induction m)
  case Nil
  have "js_plus 0 v = Some (0 + v)"
    by (rule js_plus_exact [of 0 A v B]) (use assms in simp_all)
  then show ?case using assms by simp
next
  case (Cons e m)
  obtain k0 w where e: "e = (k0, w)" by (cases e)
  have w: "\<bar>w\<bar> \<le> A" using Cons.prems e by simp
  have B: "0 \<le> B" using assms(2) by linarith
  show ?case
  proof (cases "k0 = k")
    case True
    have "js_plus (if w = 0 then 0 else w) v = Some (w + v)"
      using js_plus_exact [OF w assms(2,4)] by simp
    moreover have "\<bar>w + v\<bar> \<le> A + B" using w assms(2) by linarith
    moreover have "\<forall>e\<in>set m. \<bar>snd e\<bar> \<le> A + B" using Cons.prems B by fastforce
    ultimately show ?thesis using True e by simp
  next
    case False
    from Cons.IH Cons.prems obtain r where
      r: "add_to k v m = Some r" "\<forall>e\<in>set r. \<bar>snd e\<bar> \<le> A + B" by auto
    have "\<bar>w\<bar> \<le> A + B" using w B by linarith
    then show ?thesis using False e r by simp
  qed
qed

lemma total_distinct:
  assumes "distinct (map fst m)" "(k, v) \<in> set m"
  shows "total m k = v"
  using assms by (simp add: total_def)

lemma merge_rows_spec:
  assumes "merge_rows parse rows m = Some m'"
  shows "(distinct (map fst m) \<longrightarrow> distinct (map fst m'))
    \<and> fst ` set m' = fst ` set m \<union> {t. \<exists>r\<in>set rows. epoch_second parse (fst r) = Some t}
    \<and> (\<forall>t. total m' t = total m t
          + sum_list (map snd (filter (\<lambda>r. epoch_second parse (fst r) = Some t) rows)))
    \<and> sum_list (map snd m') = sum_list (map snd m) + sum_list (map snd rows)"
  using assms
proof (induction rows arbitrary: m)
  case Nil
  then show ?case by simp
next
  case (Cons r rows)
  obtain s v where r: "r = (s, v)" by (cases r)
  from Cons.prems r obtain ts m1 where
    ts: "epoch_second parse s = Some ts" and
    m1: "add_to ts v m = Some m1" and
    rec: "merge_rows parse rows m1 = Some m'"
    by (auto split: option.splits)
  note ih = Cons.IH [OF rec]
  note a = add_to_spec [OF m1]
  show ?case
    using ih ts a
    by (auto simp: r)
qed

lemma merge_rows_total:
  assumes "\<forall>r\<in>set rows. parse (fst r) \<noteq> None"
    and "\<forall>e\<in>set m. \<bar>snd e\<bar> \<le> A" "0 \<le> A"
    and "A + sum_list (map (\<lambda>r. \<bar>snd r\<bar>) rows) \<le> 2 ^ 53"
  shows "\<exists>m'. merge_rows parse rows m = Some m'"
  using assms
proof (induction rows arbitrary: m A)
  case Nil
  then show ?case by simp
next
  case (Cons r rows)
  obtain s v where r: "r = (s, v)" by (cases r)
  from Cons.prems(1) r obtain ms where ms: "parse s = Some ms" by auto
  have nonneg: "0 \<le> sum_list (map (\<lambda>r. \<bar>snd r\<bar>) rows)"
    by (rule sum_list_nonneg) auto
  have b: "A + \<bar>v\<bar> \<le> 2 ^ 53" using Cons.prems(4) nonneg by (simp add: r)
  from add_to_exact [OF Cons.prems(2) order_refl Cons.prems(3) b, of "ms div 1000"]
  obtain m1 where m1: "add_to (ms div 1000) v m = Some m1"
    "\<forall>e\<in>set m1. \<bar>snd e\<bar> \<le> A + \<bar>v\<bar>" by blast
  have "\<exists>m'. merge_rows parse rows m1 = Some m'"
  proof (rule Cons.IH [OF _ m1(2)])
    show "\<forall>r\<in>set rows. parse (fst r) \<noteq> None" using Cons.prems(1) by simp
    show "0 \<le> A + \<bar>v\<bar>" using Cons.prems(3) by simp
    show "A + \<bar>v\<bar> + sum_list (map (\<lambda>r. \<bar>snd r\<bar>) rows) \<le> 2 ^ 53"
      using Cons.prems(4) by (simp add: r)
  qed
  then show ?case by (simp add: r epoch_second_def ms m1(1))
qed

lemma mset_insert_by: "mset (insert_by cmp x ys) = add_mset x (mset ys)"
  by (induction ys) simp_all

lemma mset_js_sort: "mset (js_sort cmp xs) = mset xs"
  by (induction xs) (simp_all add: js_sort_def mset_insert_by)

lemma js_sort_key:
  fixes f :: "'a \<Rightarrow> int"
  shows "js_sort (\<lambda>a b. f a - f b) xs = sort_key f xs"
proof -
  have "insert_by (\<lambda>a b. f a - f b) x ys = insort_key f x ys" for x ys
    by (induction ys) simp_all
  then have "insert_by (\<lambda>a b. f a - f b) = insort_key f" by (intro ext)
  then show ?thesis by (simp add: js_sort_def sort_key_def)
qed

lemma mset_entries: "mset (entries obj) = mset obj"
  by (simp add: entries_def)

lemma set_entries: "set (entries obj) = set obj"
  using mset_entries [of obj] by (metis set_mset_mset)

text \<open>
  Claim C2. Let every row's time string parse, and let the values be integers whose
  magnitudes add up to at most \<open>2 ^ 53\<close> (so that every sum the code forms is exact).
  The account-scope normalisation returns a point list that is strictly ascending by
  timestamp (so each epoch second occurs once), whose timestamps are exactly the epoch
  seconds of the rows, and where the value of each point is the sum of the values of
  the rows that resolve to its epoch second.
\<close>

theorem C2_series_merge:
  assumes "\<forall>r\<in>set rows. parse (fst r) \<noteq> None"
    and "sum_list (map (\<lambda>r. \<bar>snd r\<bar>) rows) \<le> 2 ^ 53"
  shows "\<exists>detail. detail_of parse rows = Some detail
     \<and> sorted_wrt (<) (map fst detail)
     \<and> set (map fst detail) = {t. \<exists>r\<in>set rows. epoch_second parse (fst r) = Some t}
     \<and> (\<forall>(t, v)\<in>set detail.
           v = sum_list (map snd (filter (\<lambda>r. epoch_second parse (fst r) = Some t) rows)))"
proof -
  obtain m where m: "merge_rows parse rows [] = Some m"
    using merge_rows_total [OF assms(1), of "[]" 0] assms(2) by auto
  define detail where "detail = sort_key fst (entries m)"
  have d: "detail_of parse rows = Some detail"
    by (simp add: detail_of_def m js_sort_key detail_def)
  have spec: "distinct (map fst m)"
    "fst ` set m = {t. \<exists>r\<in>set rows. epoch_second parse (fst r) = Some t}"
    "\<And>t. total m t = sum_list (map snd (filter (\<lambda>r. epoch_second parse (fst r) = Some t) rows))"
    using merge_rows_spec [OF m] by (simp_all add: total_def)
  have ms: "mset detail = mset m" by (simp add: detail_def mset_entries)
  then have st: "set detail = set m" by (metis set_mset_mset)
  have "mset (map fst detail) = mset (map fst m)" using ms by (metis mset_map)
  then have dist: "distinct (map fst detail)" using spec(1) by (metis mset_eq_imp_distinct_iff)
  have "sorted (map fst detail)" by (simp add: detail_def)
  then have 1: "sorted_wrt (<) (map fst detail)" using dist by (simp add: strict_sorted_iff)
  have 2: "set (map fst detail) = {t. \<exists>r\<in>set rows. epoch_second parse (fst r) = Some t}"
    using spec(2) st by simp
  have 3: "v = sum_list (map snd (filter (\<lambda>r. epoch_second parse (fst r) = Some t) rows))"
    if "(t, v) \<in> set detail" for t v
    using that st total_distinct [OF spec(1), of t v] spec(3) [of t] by simp
  show ?thesis using d 1 2 3 by blast
qed

theorem C2_series_merge_witness:
  "iso_parse ''2024-01-01T00:00:00Z'' \<noteq> None
   \<and> iso_parse ''2024-01-01T00:00:00.500Z'' \<noteq> None
   \<and> iso_parse ''2023-12-31T23:00:00Z'' \<noteq> None
   \<and> \<bar>3 :: int\<bar> + \<bar>5\<bar> + \<bar>1\<bar> \<le> 2 ^ 53
   \<and> detail_of iso_parse [(''2024-01-01T00:00:00Z'', 3), (''2024-01-01T00:00:00.500Z'', 5),
        (''2023-12-31T23:00:00Z'', 1)] = Some [(1704063600, 1), (1704067200, 8)]
   \<and> sorted_wrt (<) (map fst [(1704063600::int, 1::int), (1704067200, 8)])"
proof -
  have p: "iso_parse ''2024-01-01T00:00:00Z'' = Some 1704067200000"
    "iso_parse ''2024-01-01T00:00:00.500Z'' = Some 1704067200500"
    "iso_parse ''2023-12-31T23:00:00Z'' = Some 1704063600000"
    by code_simp+
  have h: "\<forall>r\<in>set [(''2024-01-01T00:00:00Z'', 3::int), (''2024-01-01T00:00:00.500Z'', 5),
              (''2023-12-31T23:00:00Z'', 1)]. iso_parse (fst r) \<noteq> None"
    by (simp add: p)
  have b: "sum_list (map (\<lambda>r. \<bar>snd r\<bar>) [(''2024-01-01T00:00:00Z'', 3::int),
              (''2024-01-01T00:00:00.500Z'', 5), (''2023-12-31T23:00:00Z'', 1)]) \<le> 2 ^ 53"
    by simp
  have d: "detail_of iso_parse [(''2024-01-01T00:00:00Z'', 3), (''2024-01-01T00:00:00.500Z'', 5),
        (''2023-12-31T23:00:00Z'', 1)] = Some [(1704063600, 1), (1704067200, 8)]"
    by code_simp
  show ?thesis
    using C2_series_merge [OF h b] p d by simp
qed

section \<open>The daily rollup (claim C3)\<close>

lemma second_day:
  fixes ts :: int
  shows "(ts * 1000) div msPerDay = ts div 86400"
proof -
  have "(ts * 1000) div (1000 * 86400) = (ts * 1000) div 1000 div 86400"
    by (rule zdiv_zmult2_eq) simp
  then show ?thesis by (simp add: msPerDay_def)
qed

lemma day_key:
  assumes "four_digit_year (ts * 1000)"
  obtains isoString where "toISOString (ts * 1000) = Inr isoString"
    "take 10 isoString = date_string (ts div 86400)"
  using toISOString_date [OF assms] by (metis second_day)

lemma day_in_range:
  assumes "four_digit_year (ts * 1000)"
  shows "DayFromYear 0 \<le> ts div 86400" "ts div 86400 < DayFromYear 10000"
  using four_digit_year_day(1,2) [OF assms] by (simp_all add: second_day)

lemma date_string_inj:
  assumes "DayFromYear 0 \<le> d" "d < DayFromYear 10000"
    "DayFromYear 0 \<le> d'" "d' < DayFromYear 10000"
    "date_string d = date_string d'"
  shows "d = d'"
proof -
  have "Some d = iso_date (date_string d)" by (rule date_part(1) [OF assms(1,2), symmetric])
  also have "\<dots> = iso_date (date_string d')" by (simp only: assms(5))
  also have "\<dots> = Some d'" by (rule date_part(1) [OF assms(3,4)])
  finally show ?thesis by simp
qed

lemma day_merge_spec:
  assumes "\<forall>p\<in>set ps. four_digit_year (fst p * 1000)"
    and "\<forall>e\<in>set m. \<bar>snd e\<bar> \<le> A" "0 \<le> A"
    and "A + sum_list (map (\<lambda>p. \<bar>snd p\<bar>) ps) \<le> 2 ^ 53"
  shows "\<exists>dm. day_merge ps m = Ok dm
    \<and> (distinct (map fst m) \<longrightarrow> distinct (map fst dm))
    \<and> fst ` set dm = fst ` set m \<union> (\<lambda>p. date_string (fst p div 86400)) ` set ps
    \<and> (\<forall>k. total dm k = total m k
          + sum_list (map snd (filter (\<lambda>p. date_string (fst p div 86400) = k) ps)))
    \<and> sum_list (map snd dm) = sum_list (map snd m) + sum_list (map snd ps)"
  using assms
proof (induction ps arbitrary: m A)
  case Nil
  then show ?case by simp
next
  case (Cons p ps)
  obtain ts v where p: "p = (ts, v)" by (cases p)
  have "four_digit_year (ts * 1000)" using Cons.prems(1) by (simp add: p)
  then obtain isoString where i: "toISOString (ts * 1000) = Inr isoString"
    "take 10 isoString = date_string (ts div 86400)"
    by (rule day_key)
  have rest: "\<forall>p\<in>set ps. four_digit_year (fst p * 1000)" using Cons.prems(1) by simp
  have nonneg: "0 \<le> sum_list (map (\<lambda>p. \<bar>snd p\<bar>) ps)"
    by (rule sum_list_nonneg) auto
  have b: "A + \<bar>v\<bar> \<le> 2 ^ 53" using Cons.prems(4) nonneg by (simp add: p)
  from add_to_exact [OF Cons.prems(2) order_refl Cons.prems(3) b,
      of "date_string (ts div 86400)"]
  obtain m1 where m1: "add_to (date_string (ts div 86400)) v m = Some m1"
    "\<forall>e\<in>set m1. \<bar>snd e\<bar> \<le> A + \<bar>v\<bar>" by blast
  note a = add_to_spec [OF m1(1)]
  have "\<exists>dm. day_merge ps m1 = Ok dm
    \<and> (distinct (map fst m1) \<longrightarrow> distinct (map fst dm))
    \<and> fst ` set dm = fst ` set m1 \<union> (\<lambda>p. date_string (fst p div 86400)) ` set ps
    \<and> (\<forall>k. total dm k = total m1 k
          + sum_list (map snd (filter (\<lambda>p. date_string (fst p div 86400) = k) ps)))
    \<and> sum_list (map snd dm) = sum_list (map snd m1) + sum_list (map snd ps)"
  proof (rule Cons.IH [OF rest m1(2)])
    show "0 \<le> A + \<bar>v\<bar>" using Cons.prems(3) by simp
    show "A + \<bar>v\<bar> + sum_list (map (\<lambda>p. \<bar>snd p\<bar>) ps) \<le> 2 ^ 53"
      using Cons.prems(4) by (simp add: p)
  qed
  then obtain dm where dm: "day_merge ps m1 = Ok dm"
    "distinct (map fst m1) \<longrightarrow> distinct (map fst dm)"
    "fst ` set dm = fst ` set m1 \<union> (\<lambda>p. date_string (fst p div 86400)) ` set ps"
    "\<forall>k. total dm k = total m1 k
          + sum_list (map snd (filter (\<lambda>p. date_string (fst p div 86400) = k) ps))"
    "sum_list (map snd dm) = sum_list (map snd m1) + sum_list (map snd ps)"
    by blast
  have 1: "day_merge (p # ps) m = Ok dm" by (simp add: p i m1(1) dm(1))
  have 2: "distinct (map fst m) \<longrightarrow> distinct (map fst dm)"
    using dm(2) a by simp
  have 3: "fst ` set dm = fst ` set m \<union> (\<lambda>p. date_string (fst p div 86400)) ` set (p # ps)"
    using dm(3) a by (simp add: p)
  have 4: "\<forall>k. total dm k = total m k
          + sum_list (map snd (filter (\<lambda>p. date_string (fst p div 86400) = k) (p # ps)))"
    using dm(4) a by (auto simp: p)
  have 5: "sum_list (map snd dm) = sum_list (map snd m) + sum_list (map snd (p # ps))"
    using dm(5) a by (simp add: p)
  show ?case using 1 2 3 4 5 by blast
qed

lemma reduce_plus_exact:
  assumes "\<bar>a\<bar> \<le> A" "A + sum_list (map abs xs) \<le> 2 ^ 53"
  shows "reduce_plus a xs = Some (a + sum_list xs)"
  using assms
proof (induction xs arbitrary: a A)
  case Nil
  then show ?case by simp
next
  case (Cons x xs)
  have nonneg: "0 \<le> sum_list (map abs xs)" by (rule sum_list_nonneg) auto
  have "A + \<bar>x\<bar> \<le> 2 ^ 53" using Cons.prems(2) nonneg by simp
  from js_plus_exact [OF Cons.prems(1) order_refl this]
  have s: "js_plus a x = Some (a + x)" .
  have "reduce_plus (a + x) xs = Some (a + x + sum_list xs)"
  proof (rule Cons.IH)
    show "\<bar>a + x\<bar> \<le> A + \<bar>x\<bar>" using Cons.prems(1) by linarith
    show "A + \<bar>x\<bar> + sum_list (map abs xs) \<le> 2 ^ 53" using Cons.prems(2) by simp
  qed
  then show ?case by (simp add: s algebra_simps)
qed

lemma js_sort_opt_Some:
  assumes "\<And>x y. x \<in> set xs \<Longrightarrow> y \<in> set xs \<Longrightarrow> cmp x y \<noteq> None"
  obtains ys where "js_sort_opt cmp xs = Some ys" "mset ys = mset xs"
proof -
  have "list_all (\<lambda>x. list_all (\<lambda>y. cmp x y \<noteq> None) xs) xs"
    using assms by (simp add: list_all_iff)
  then have "js_sort_opt cmp xs
      = Some (js_sort (\<lambda>x y. case cmp x y of Some c \<Rightarrow> c | None \<Rightarrow> 0) xs)"
    by (simp add: js_sort_opt_def)
  then show thesis by (rule that) (rule mset_js_sort)
qed

lemma sum_list_mset_eq:
  fixes xs ys :: "('a \<times> int) list"
  assumes "mset xs = mset ys"
  shows "sum_list (map snd xs) = sum_list (map snd ys)"
proof -
  have "mset (map snd xs) = mset (map snd ys)" using assms by (metis mset_map)
  then show ?thesis by (metis sum_mset_sum_list)
qed


text \<open>
  Claim C3. Let \<open>parse\<close> agree with the standard's date format, let every point of
  \<open>detail\<close> lie in the years 0000 to 9999, and let the values be integers whose
  magnitudes add up to at most \<open>2 ^ 53\<close> (so that every sum the code forms is exact).
  The rollup returns one point per UTC day that occurs in \<open>detail\<close>; its timestamp is
  that day's 00:00 UTC (the day number times 86400), its value is the sum over the
  points of that day, and the values of the rolled-up list add up to the total of
  \<open>detail\<close>. The response carries the rolled-up list exactly when the metric is
  \<^verbatim>\<open>function_requestCount\<close> or \<^verbatim>\<open>function_cpuCostTime\<close> and the window is
  long-term, and \<open>detail\<close> itself otherwise; its \<open>Sum\<close> is always the total of \<open>detail\<close>.
\<close>

theorem C3_daily_rollup:
  assumes "ecma_parse parse" "\<forall>p\<in>set detail. four_digit_year (fst p * 1000)"
    and "sum_list (map (\<lambda>p. \<bar>snd p\<bar>) detail) \<le> 2 ^ 53"
  shows "\<exists>daily.
      rollup parse detail = Ok daily
    \<and> distinct (map fst daily)
    \<and> set (map fst daily) = (\<lambda>p. Some (fst p div 86400 * 86400)) ` set detail
    \<and> (\<forall>(t, v)\<in>set daily.
          v = sum_list (map snd (filter (\<lambda>p. Some (fst p div 86400 * 86400) = t) detail)))
    \<and> sum_list (map snd daily) = sum_list (map snd detail)
    \<and> series_of parse metricParam long detail =
        Ok \<lparr>Detail =
              (if (metricParam = Some ''function_requestCount''
                   \<or> metricParam = Some ''function_cpuCostTime'') \<and> long
               then daily
               else map (\<lambda>(ts, v). (Some ts, v)) detail),
            Sum = sum_list (map snd detail)\<rparr>"
proof -
  define K where "K = (\<lambda>p :: int \<times> int. date_string (fst p div 86400))"
  define stamp where "stamp = (\<lambda>day. epoch_second parse (day @ ''T00:00:00Z''))"
  obtain dm where dm: "day_merge detail [] = Ok dm" "distinct (map fst dm)"
    "fst ` set dm = K ` set detail"
    "\<And>k. total dm k = sum_list (map snd (filter (\<lambda>p. K p = k) detail))"
    "sum_list (map snd dm) = sum_list (map snd detail)"
    using day_merge_spec [OF assms(2), of "[]" 0] assms(3) by (auto simp: K_def total_def)
  have dates: "iso_date (fst e) \<noteq> None" if "e \<in> set dm" for e
  proof -
    from that dm(3) obtain p where p: "p \<in> set detail" "fst e = K p"
      by (metis image_iff)
    have f: "four_digit_year (fst p * 1000)" using assms(2) p(1) by blast
    have "iso_date (K p) = Some (fst p div 86400)"
      unfolding K_def by (rule date_part(1) [OF day_in_range [OF f]])
    then show ?thesis using p(2) by simp
  qed
  obtain sorted_days where sd:
    "js_sort_opt (\<lambda>a b. localeCompare (fst a) (fst b)) dm = Some sorted_days"
    and ms: "mset sorted_days = mset dm"
    by (rule js_sort_opt_Some [of dm "\<lambda>a b. localeCompare (fst a) (fst b)"])
       (simp add: localeCompare_def dates)
  define daily where "daily = map (\<lambda>(day, v). (stamp day, v)) sorted_days"
  have r: "rollup parse detail = Ok daily"
    by (simp add: rollup_def bind_def dm(1) sd daily_def stamp_def)
  have st: "set sorted_days = set dm" using ms by (metis set_mset_mset)
  have "mset (map fst sorted_days) = mset (map fst dm)" using ms by (metis mset_map)
  then have dist: "distinct (map fst sorted_days)" using dm(2) by (metis mset_eq_imp_distinct_iff)
  have stampK: "stamp (K p) = Some (fst p div 86400 * 86400)" if "p \<in> set detail" for p
  proof -
    have f: "four_digit_year (fst p * 1000)" using assms(2) that by blast
    have "iso_parse (K p @ ''T00:00:00Z'') = Some (fst p div 86400 * msPerDay)"
      unfolding K_def by (rule day_start_parse [OF day_in_range [OF f]])
    then have "parse (K p @ ''T00:00:00Z'') = Some (fst p div 86400 * msPerDay)"
      using assms(1) by (simp add: ecma_parse_def)
    then show ?thesis by (simp add: stamp_def epoch_second_def msPerDay_def)
  qed
  have Kinj: "K p = K q \<longleftrightarrow> fst p div 86400 = fst q div 86400"
    if "p \<in> set detail" "q \<in> set detail" for p q
  proof
    assume "K p = K q"
    then show "fst p div 86400 = fst q div 86400"
      unfolding K_def
      using date_string_inj day_in_range assms(2) that by blast
  qed (simp add: K_def)
  have keys: "fst ` set sorted_days = K ` set detail" using st dm(3) by simp
  have fstd: "map fst daily = map stamp (map fst sorted_days)"
    by (simp add: daily_def case_prod_unfold)
  have inj: "inj_on stamp (set (map fst sorted_days))"
  proof (rule inj_onI)
    fix a b
    assume "a \<in> set (map fst sorted_days)" "b \<in> set (map fst sorted_days)" "stamp a = stamp b"
    then obtain p q where pq: "p \<in> set detail" "q \<in> set detail" "a = K p" "b = K q"
      using keys by auto
    with \<open>stamp a = stamp b\<close> have "fst p div 86400 = fst q div 86400"
      using stampK by simp
    then show "a = b" using Kinj pq by simp
  qed
  have 1: "distinct (map fst daily)"
    unfolding fstd using dist inj distinct_map [of stamp "map fst sorted_days"] by blast
  have 2: "set (map fst daily) = (\<lambda>p. Some (fst p div 86400 * 86400)) ` set detail"
  proof -
    have "set (map fst daily) = stamp ` (fst ` set sorted_days)"
      unfolding fstd by (simp only: set_map)
    also have "\<dots> = stamp ` (K ` set detail)" by (simp only: keys)
    also have "\<dots> = (\<lambda>p. stamp (K p)) ` set detail" by (simp only: image_image)
    also have "\<dots> = (\<lambda>p. Some (fst p div 86400 * 86400)) ` set detail"
      by (rule image_cong [OF refl]) (rule stampK)
    finally show ?thesis .
  qed
  have 3: "v = sum_list (map snd (filter (\<lambda>p. Some (fst p div 86400 * 86400) = t) detail))"
    if "(t, v) \<in> set daily" for t v
  proof -
    from that obtain day where day: "(day, v) \<in> set dm" "t = stamp day"
      using st by (auto simp: daily_def)
    then obtain q where q: "q \<in> set detail" "day = K q" using dm(3) by (metis fst_conv image_iff)
    have "v = total dm day" using total_distinct [OF dm(2) day(1)] by simp
    also have "\<dots> = sum_list (map snd (filter (\<lambda>p. K p = day) detail))" by (rule dm(4))
    also have "filter (\<lambda>p. K p = day) detail
        = filter (\<lambda>p. Some (fst p div 86400 * 86400) = t) detail"
    proof (rule filter_cong [OF refl])
      fix p assume p: "p \<in> set detail"
      have "t = Some (fst q div 86400 * 86400)" using day(2) q stampK by simp
      then show "(K p = day) = (Some (fst p div 86400 * 86400) = t)"
        using Kinj [OF p q(1)] q(2) by auto
    qed
    finally show ?thesis .
  qed
  have "sum_list (map snd daily) = sum_list (map snd sorted_days)"
    by (simp add: daily_def case_prod_unfold comp_def)
  also have "\<dots> = sum_list (map snd dm)" by (rule sum_list_mset_eq [OF ms])
  finally have 4: "sum_list (map snd daily) = sum_list (map snd detail)" using dm(5) by simp
  have "sum_list (map abs (map snd detail)) = sum_list (map (\<lambda>p. \<bar>snd p\<bar>) detail)"
    by (simp add: comp_def)
  then have "reduce_plus 0 (map snd detail) = Some (0 + sum_list (map snd detail))"
    using reduce_plus_exact [of 0 0 "map snd detail"] assms(3) by simp
  then have 5: "series_of parse metricParam long detail =
        Ok \<lparr>Detail =
              (if (metricParam = Some ''function_requestCount''
                   \<or> metricParam = Some ''function_cpuCostTime'') \<and> long
               then daily
               else map (\<lambda>(ts, v). (Some ts, v)) detail),
            Sum = sum_list (map snd detail)\<rparr>"
    by (simp add: series_of_def bind_def r isFunctionMetric_def)
  show ?thesis using r 1 2 3 4 5 by blast
qed

theorem C3_daily_rollup_witness:
  "ecma_parse iso_parse
   \<and> four_digit_year (1704067200 * 1000) \<and> four_digit_year (1704070800 * 1000)
   \<and> \<bar>2 :: int\<bar> + \<bar>3\<bar> \<le> 2 ^ 53
   \<and> rollup iso_parse [(1704067200, 2), (1704070800, 3)] = Ok [(Some 1704067200, 5)]
   \<and> series_of iso_parse (Some ''function_requestCount'') True
        [(1704067200, 2), (1704070800, 3)]
       = Ok \<lparr>Detail = [(Some 1704067200, 5)], Sum = 5\<rparr>
   \<and> series_of iso_parse (Some ''function_cpuCostTime'') True
        [(1704067200, 2), (1704070800, 3)]
       = Ok \<lparr>Detail = [(Some 1704067200, 5)], Sum = 5\<rparr>
   \<and> series_of iso_parse (Some ''function_cpuCostTime'') False
        [(1704067200, 2), (1704070800, 3)]
       = Ok \<lparr>Detail = [(Some 1704067200, 2), (Some 1704070800, 3)], Sum = 5\<rparr>
   \<and> series_of iso_parse (Some ''l7Flow_request'') True
        [(1704067200, 2), (1704070800, 3)]
       = Ok \<lparr>Detail = [(Some 1704067200, 2), (Some 1704070800, 3)], Sum = 5\<rparr>"
proof -
  have e: "ecma_parse iso_parse" by (simp add: ecma_parse_def)
  have f: "four_digit_year (1704067200 * 1000)" "four_digit_year (1704070800 * 1000)"
    by (simp_all add: four_digit_year_def)
  then have h: "\<forall>p\<in>set [(1704067200, 2), (1704070800, 3)]. four_digit_year (fst p * 1000)"
    by simp
  have b: "sum_list (map (\<lambda>p. \<bar>snd p\<bar>) [(1704067200 :: int, 2 :: int), (1704070800, 3)])
      \<le> 2 ^ 53"
    by simp
  have r: "rollup iso_parse [(1704067200, 2), (1704070800, 3)] = Ok [(Some 1704067200, 5)]"
    by code_simp
  have a: "series_of iso_parse (Some ''function_requestCount'') True
        [(1704067200, 2), (1704070800, 3)]
       = Ok \<lparr>Detail = [(Some 1704067200, 5)], Sum = 5\<rparr>"
    using C3_daily_rollup [OF e h b, of "Some ''function_requestCount''" True] r by simp
  have a': "series_of iso_parse (Some ''function_cpuCostTime'') True
        [(1704067200, 2), (1704070800, 3)]
       = Ok \<lparr>Detail = [(Some 1704067200, 5)], Sum = 5\<rparr>"
    using C3_daily_rollup [OF e h b, of "Some ''function_cpuCostTime''" True] r by simp
  have b': "series_of iso_parse (Some ''function_cpuCostTime'') False
        [(1704067200, 2), (1704070800, 3)]
       = Ok \<lparr>Detail = [(Some 1704067200, 2), (Some 1704070800, 3)], Sum = 5\<rparr>"
    using C3_daily_rollup [OF e h b, of "Some ''function_cpuCostTime''" False] r by simp
  have c: "series_of iso_parse (Some ''l7Flow_request'') True
        [(1704067200, 2), (1704070800, 3)]
       = Ok \<lparr>Detail = [(Some 1704067200, 2), (Some 1704070800, 3)], Sum = 5\<rparr>"
    using C3_daily_rollup [OF e h b, of "Some ''l7Flow_request''" True] r by simp
  show ?thesis using e f r a a' b' c by simp
qed

section \<open>The zone-scope query (claim C5)\<close>

lemma starts_with_iff: "starts_with p s \<longleftrightarrow> (\<exists>b. s = p @ b)"
  by (induction p s rule: starts_with.induct) auto

lemma contains_iff: "contains p s \<longleftrightarrow> (\<exists>a b. s = a @ p @ b)"
proof (induction s)
  case Nil
  show ?case by auto
next
  case (Cons c cs)
  show ?case
  proof
    assume "contains p (c # cs)"
    then consider "starts_with p (c # cs)" | "contains p cs" by auto
    then show "\<exists>a b. c # cs = a @ p @ b"
    proof cases
      case 1
      then obtain b where "c # cs = p @ b" by (auto simp: starts_with_iff)
      then have "c # cs = [] @ p @ b" by simp
      then show ?thesis by blast
    next
      case 2
      then obtain a b where "cs = a @ p @ b" using Cons.IH by blast
      then have "c # cs = (c # a) @ p @ b" by simp
      then show ?thesis by blast
    qed
  next
    assume "\<exists>a b. c # cs = a @ p @ b"
    then obtain a b where ab: "c # cs = a @ p @ b" by blast
    show "contains p (c # cs)"
    proof (cases a)
      case Nil
      then have "starts_with p (c # cs)" using ab by (auto simp: starts_with_iff)
      then show ?thesis by simp
    next
      case (Cons x a')
      then have "cs = a' @ p @ b" using ab by simp
      then have "contains p cs" using Cons.IH by blast
      then show ?thesis by simp
    qed
  qed
qed


lemma getTimeConfig_modes:
  assumes "0 \<le> now" "valid_time now"
  obtains timeCfg where "getTimeConfig parse now s e = Inr timeCfg"
    "(datasetMode timeCfg = ''httpRequests1dGroups'' \<and> dimensionKey timeCfg = ''date''
        \<and> orderBy timeCfg = ''date_ASC'')
     \<or> (datasetMode timeCfg = ''httpRequests1hGroups'' \<and> dimensionKey timeCfg = ''datetime''
        \<and> orderBy timeCfg = ''datetime_ASC'')"
proof -
  have "valid_time (now - 24 * 60 * 60 * 1000)"
    using assms by (simp add: valid_time_def)
  then obtain s0 where s0: "toISOString (now - 24 * 60 * 60 * 1000) = Inr s0"
    by (rule toISOString_Inr)
  obtain e0 where e0: "toISOString now = Inr e0"
    using assms(2) by (rule toISOString_Inr)
  have bs: "(if truthy s then Inr (js_or s [])
             else toISOString (now - 24 * 60 * 60 * 1000)) = Inr (js_or s s0)"
    by (rule bound_or_default [OF s0])
  have be: "(if truthy e then Inr (js_or e []) else toISOString now) = Inr (js_or e e0)"
    by (rule bound_or_default [OF e0])
  show thesis
  proof (cases "case parse (js_or s s0) of None \<Rightarrow> False
        | Some t \<Rightarrow> now - t > 3 * 24 * 60 * 60 * 1000")
    case True
    have "getTimeConfig parse now s e =
        Inr \<lparr>start = js_or s s0, end' = js_or e e0,
             queryFrom = take 10 (js_or s s0), queryTo = take 10 (js_or e e0),
             datasetMode = ''httpRequests1dGroups'', orderBy = ''date_ASC'',
             dimensionKey = ''date'', isLongTerm = True,
             filterObj = [(''date_geq'', take 10 (js_or s s0)),
                          (''date_leq'', take 10 (js_or e e0))]\<rparr>"
      unfolding getTimeConfig_def Let_def bs be using True by simp
    then show ?thesis by (rule that) simp
  next
    case False
    have "getTimeConfig parse now s e =
        Inr \<lparr>start = js_or s s0, end' = js_or e e0,
             queryFrom = js_or s s0, queryTo = js_or e e0,
             datasetMode = ''httpRequests1hGroups'', orderBy = ''datetime_ASC'',
             dimensionKey = ''datetime'', isLongTerm = False,
             filterObj = [(''datetime_geq'', js_or s s0),
                          (''datetime_leq'', js_or e e0)]\<rparr>"
      unfolding getTimeConfig_def Let_def bs be using False by simp
    then show ?thesis by (rule that) simp
  qed
qed

lemma zone_configs:
  assumes "js_lookup METRIC_MAP k = Own config" "scope config = Zone"
  shows "(k = ''l7Flow_outFlux_domain'' \<or> k = ''l7Flow_request_domain'')
    \<and> (sumid config = ''bytes'' \<or> sumid config = ''requests'')"
proof -
  have "map_of METRIC_MAP k = Some config"
    using assms(1) by (simp add: js_lookup_def split: option.splits if_splits)
  then show ?thesis using assms(2)
    by (auto simp: METRIC_MAP_def series_metric_def distribution_metric_def split: if_splits)
qed

lemma zone_keys_not_topn:
  "js_lookup ZONE_TOPN_CONFIG ''l7Flow_outFlux_domain'' = Undefined"
  "js_lookup ZONE_TOPN_CONFIG ''l7Flow_request_domain'' = Undefined"
  by (simp_all add: js_lookup_def ZONE_TOPN_CONFIG_def Object_prototype_def)

lemma zone_branch_calls:
  "snd (zone_branch ks timeCfg config zones_reply graphql_reply)
     = zones_call ks
       # (case fetchZones zones_reply of
            Inr (z # zs) \<Rightarrow>
              [graphql_call ks
                 (JObj [(''query'', JStr (zone_query timeCfg config)),
                        (''variables'', zone_variables (map fst (z # zs)) timeCfg)])]
          | _ \<Rightarrow> [])"
  by (simp add: zone_branch_def split: sum.splits list.splits)

lemma zone_query_filter:
  assumes "(dataset = ''httpRequests1dGroups'' \<and> dimKey = ''date'' \<and> sortKey = ''date_ASC'')
     \<or> (dataset = ''httpRequests1hGroups'' \<and> dimKey = ''datetime''
        \<and> sortKey = ''datetime_ASC'')"
    and "sumField = ''bytes'' \<or> sumField = ''requests''"
  shows "contains (filter_clause dimKey) (zone_query_text dataset dimKey sortKey sumField)"
    and "\<not> contains ''$to'' (zone_query_text dataset dimKey sortKey sumField)"
    and "\<not> contains ''_leq'' (zone_query_text dataset dimKey sortKey sumField)"
    and "\<not> contains ''_lt'' (zone_query_text dataset dimKey sortKey sumField)"
proof -
  have a: "contains (filter_clause ''date'')
      (zone_query_text ''httpRequests1dGroups'' ''date'' ''date_ASC'' ''bytes'')"
    "contains (filter_clause ''date'')
      (zone_query_text ''httpRequests1dGroups'' ''date'' ''date_ASC'' ''requests'')"
    "contains (filter_clause ''datetime'')
      (zone_query_text ''httpRequests1hGroups'' ''datetime'' ''datetime_ASC'' ''bytes'')"
    "contains (filter_clause ''datetime'')
      (zone_query_text ''httpRequests1hGroups'' ''datetime'' ''datetime_ASC'' ''requests'')"
    by code_simp+
  have b: "\<not> contains p (zone_query_text ''httpRequests1dGroups'' ''date'' ''date_ASC'' ''bytes'')"
    "\<not> contains p (zone_query_text ''httpRequests1dGroups'' ''date'' ''date_ASC'' ''requests'')"
    "\<not> contains p (zone_query_text ''httpRequests1hGroups'' ''datetime'' ''datetime_ASC'' ''bytes'')"
    "\<not> contains p (zone_query_text ''httpRequests1hGroups'' ''datetime'' ''datetime_ASC''
          ''requests'')"
    if "p = ''$to'' \<or> p = ''_leq'' \<or> p = ''_lt''" for p
    using that by (elim disjE; simp only: ; code_simp)+
  show "contains (filter_clause dimKey) (zone_query_text dataset dimKey sortKey sumField)"
    using assms a by auto
  show "\<not> contains ''$to'' (zone_query_text dataset dimKey sortKey sumField)"
    using assms b [of "''$to''"] by auto
  show "\<not> contains ''_leq'' (zone_query_text dataset dimKey sortKey sumField)"
    using assms b [of "''_leq''"] by auto
  show "\<not> contains ''_lt'' (zone_query_text dataset dimKey sortKey sumField)"
    using assms b [of "''_lt''"] by auto
qed

lemma traffic_zone:
  assumes "\<not> missing_credentials ks"
    and "js_lookup METRIC_MAP (to_string (metric q)) = Own config" "scope config = Zone"
    and "getTimeConfig parse now (startTime q) (endTime q) = Inr timeCfg"
  shows "traffic parse now ks q zones_reply graphql_reply
      = zone_branch ks timeCfg config zones_reply graphql_reply"
proof -
  have "to_string (metric q) = ''l7Flow_outFlux_domain''
      \<or> to_string (metric q) = ''l7Flow_request_domain''"
    using zone_configs [OF assms(2,3)] by simp
  then have top: "js_lookup ZONE_TOPN_CONFIG (to_string (metric q)) = Undefined"
    using zone_keys_not_topn by auto
  show ?thesis
    by (simp add: traffic_def assms top)
qed

text \<open>
  Claim C5. For every request of a zone-scope metric (credentials present, whatever
  window is asked for) the upstream requests of the handler are these. First the zone
  listing, a \<^verbatim>\<open>GET\<close>. Then, when the listing gives at least one zone, and only then,
  one \<^verbatim>\<open>POST\<close> to the GraphQL endpoint whose body holds the query text and the
  variables \<^verbatim>\<open>zoneIds\<close>, \<^verbatim>\<open>from\<close> (the lower bound) and \<^verbatim>\<open>to\<close> (the upper
  bound). The query text has the filter clause \<^verbatim>\<open>filter: { <dimension>_geq: $from }\<close>
  and nowhere mentions \<^verbatim>\<open>$to\<close>, \<^verbatim>\<open>_leq\<close> or \<^verbatim>\<open>_lt\<close>.
\<close>

theorem C5_zone_query:
  assumes "\<not> missing_credentials ks"
    and "js_lookup METRIC_MAP (to_string (metric q)) = Own config" "scope config = Zone"
    and "0 \<le> now" "valid_time now"
  shows "\<exists>timeCfg.
      getTimeConfig parse now (startTime q) (endTime q) = Inr timeCfg
    \<and> snd (traffic parse now ks q zones_reply graphql_reply)
        = \<lparr>http_method = ''GET'',
           url = ''https://api.cloudflare.com/client/v4/zones?status=active&per_page=50'',
           headers = [(''X-Auth-Email'', to_string (secretId ks)),
                      (''X-Auth-Key'', to_string (secretKey ks)),
                      (''Content-Type'', ''application/json'')],
           body = None\<rparr>
          # (case fetchZones zones_reply of
               Inr (z # zs) \<Rightarrow>
                 [\<lparr>http_method = ''POST'',
                   url = ''https://api.cloudflare.com/client/v4/graphql'',
                   headers = [(''X-Auth-Email'', to_string (secretId ks)),
                              (''X-Auth-Key'', to_string (secretKey ks)),
                              (''Content-Type'', ''application/json'')],
                   body = Some (JObj
                     [(''query'', JStr (zone_query timeCfg config)),
                      (''variables'',
                       JObj [(''zoneIds'',
                              JArr (map (\<lambda>i. case i of None \<Rightarrow> JNull | Some v \<Rightarrow> v)
                                      (map fst (z # zs)))),
                             (''from'', JStr (queryFrom timeCfg)),
                             (''to'', JStr (queryTo timeCfg))])])\<rparr>]
             | _ \<Rightarrow> [])
    \<and> contains (filter_clause (dimensionKey timeCfg)) (zone_query timeCfg config)
    \<and> \<not> contains ''$to'' (zone_query timeCfg config)
    \<and> \<not> contains ''_leq'' (zone_query timeCfg config)
    \<and> \<not> contains ''_lt'' (zone_query timeCfg config)"
proof -
  obtain timeCfg where t: "getTimeConfig parse now (startTime q) (endTime q) = Inr timeCfg"
    and modes: "(datasetMode timeCfg = ''httpRequests1dGroups'' \<and> dimensionKey timeCfg = ''date''
        \<and> orderBy timeCfg = ''date_ASC'')
     \<or> (datasetMode timeCfg = ''httpRequests1hGroups'' \<and> dimensionKey timeCfg = ''datetime''
        \<and> orderBy timeCfg = ''datetime_ASC'')"
    using getTimeConfig_modes [OF assms(4,5)] by blast
  have z: "sumid config = ''bytes'' \<or> sumid config = ''requests''"
    using zone_configs [OF assms(2,3)] by simp
  have tr: "traffic parse now ks q zones_reply graphql_reply
      = zone_branch ks timeCfg config zones_reply graphql_reply"
    by (rule traffic_zone [OF assms(1,2,3) t])
  have calls: "snd (traffic parse now ks q zones_reply graphql_reply)
        = \<lparr>http_method = ''GET'',
           url = ''https://api.cloudflare.com/client/v4/zones?status=active&per_page=50'',
           headers = [(''X-Auth-Email'', to_string (secretId ks)),
                      (''X-Auth-Key'', to_string (secretKey ks)),
                      (''Content-Type'', ''application/json'')],
           body = None\<rparr>
          # (case fetchZones zones_reply of
               Inr (z # zs) \<Rightarrow>
                 [\<lparr>http_method = ''POST'',
                   url = ''https://api.cloudflare.com/client/v4/graphql'',
                   headers = [(''X-Auth-Email'', to_string (secretId ks)),
                              (''X-Auth-Key'', to_string (secretKey ks)),
                              (''Content-Type'', ''application/json'')],
                   body = Some (JObj
                     [(''query'', JStr (zone_query timeCfg config)),
                      (''variables'',
                       JObj [(''zoneIds'',
                              JArr (map (\<lambda>i. case i of None \<Rightarrow> JNull | Some v \<Rightarrow> v)
                                      (map fst (z # zs)))),
                             (''from'', JStr (queryFrom timeCfg)),
                             (''to'', JStr (queryTo timeCfg))])])\<rparr>]
             | _ \<Rightarrow> [])"
    unfolding tr zone_branch_calls
    by (simp add: zones_call_def graphql_call_def zone_variables_def
          split: sum.splits list.splits)
  have f: "contains (filter_clause (dimensionKey timeCfg)) (zone_query timeCfg config)"
    "\<not> contains ''$to'' (zone_query timeCfg config)"
    "\<not> contains ''_leq'' (zone_query timeCfg config)"
    "\<not> contains ''_lt'' (zone_query timeCfg config)"
    using zone_query_filter [OF modes z] by (simp_all add: zone_query_def)
  show ?thesis
    using t calls f by blast
qed

theorem C5_zone_query_witness:
  "\<not> missing_credentials
       \<lparr>secretId = Some ''id'', secretKey = Some ''key'', accountTag = Some ''acct'',
        zonetag = Some ''zone''\<rparr>
   \<and> js_lookup METRIC_MAP ''l7Flow_request_domain''
       = Own (series_metric ''l7Flow_request_domain'' ''requests'' Zone)
   \<and> scope (series_metric ''l7Flow_request_domain'' ''requests'' Zone) = Zone
   \<and> (0::int) \<le> 1700000000123 \<and> valid_time 1700000000123
   \<and> (\<exists>timeCfg.
        getTimeConfig iso_parse 1700000000123 None None = Inr timeCfg
      \<and> snd (traffic iso_parse 1700000000123
            \<lparr>secretId = Some ''id'', secretKey = Some ''key'', accountTag = Some ''acct'',
             zonetag = Some ''zone''\<rparr>
            \<lparr>metric = Some ''l7Flow_request_domain'', startTime = None, endTime = None\<rparr>
            (Resolved \<lparr>status = 200, statusText = ''OK'', body_text = [],
               body_json = Inr (JObj [(''result'',
                 JArr [JObj [(''id'', JStr ''z1''), (''name'', JStr ''example.com'')],
                       JObj [(''id'', JNum 7), (''name'', JStr ''example.org'')]])])\<rparr>)
            (Rejected (Error ''offline'')))
        = [\<lparr>http_method = ''GET'',
            url = ''https://api.cloudflare.com/client/v4/zones?status=active&per_page=50'',
            headers = [(''X-Auth-Email'', ''id''), (''X-Auth-Key'', ''key''),
                       (''Content-Type'', ''application/json'')],
            body = None\<rparr>,
           \<lparr>http_method = ''POST'',
            url = ''https://api.cloudflare.com/client/v4/graphql'',
            headers = [(''X-Auth-Email'', ''id''), (''X-Auth-Key'', ''key''),
                       (''Content-Type'', ''application/json'')],
            body = Some (JObj
              [(''query'', JStr (zone_query timeCfg
                   (series_metric ''l7Flow_request_domain'' ''requests'' Zone))),
               (''variables'',
                JObj [(''zoneIds'', JArr [JStr ''z1'', JNum 7]),
                      (''from'', JStr (queryFrom timeCfg)),
                      (''to'', JStr (queryTo timeCfg))])])\<rparr>]
      \<and> \<not> contains ''$to'' (zone_query timeCfg
              (series_metric ''l7Flow_request_domain'' ''requests'' Zone)))"
proof -
  define K where "K = \<lparr>secretId = Some ''id'', secretKey = Some ''key'',
    accountTag = Some ''acct'', zonetag = Some ''zone''\<rparr>"
  define Q where "Q = \<lparr>metric = Some ''l7Flow_request_domain'', startTime = None,
    endTime = None\<rparr>"
  define C where "C = series_metric ''l7Flow_request_domain'' ''requests'' Zone"
  define ZR where "ZR = Resolved \<lparr>status = 200, statusText = ''OK'', body_text = [],
               body_json = Inr (JObj [(''result'',
                 JArr [JObj [(''id'', JStr ''z1''), (''name'', JStr ''example.com'')],
                       JObj [(''id'', JNum 7), (''name'', JStr ''example.org'')]])])\<rparr>"
  have h1: "\<not> missing_credentials K"
    by (simp add: K_def missing_credentials_def truthy_def)
  have h2: "js_lookup METRIC_MAP (to_string (metric Q)) = Own C"
    by (simp add: Q_def C_def to_string_def js_lookup_def METRIC_MAP_def)
  have h3: "scope C = Zone" by (simp add: C_def series_metric_def)
  have h4: "(0::int) \<le> 1700000000123" "valid_time 1700000000123"
    by (simp_all add: valid_time_def)
  have fz: "fetchZones ZR = Inr [(Some (JStr ''z1''), Some (JStr ''example.com'')),
                                 (Some (JNum 7), Some (JStr ''example.org''))]"
    by (simp add: ZR_def fetchZones_def ok_def own_def zone_item_def)
  from C5_zone_query [OF h1 h2 h3 h4, of iso_parse ZR "Rejected (Error ''offline'')"]
  obtain timeCfg where t: "getTimeConfig iso_parse 1700000000123 (startTime Q) (endTime Q)
      = Inr timeCfg"
    and calls: "snd (traffic iso_parse 1700000000123 K Q ZR (Rejected (Error ''offline'')))
      = [\<lparr>http_method = ''GET'',
            url = ''https://api.cloudflare.com/client/v4/zones?status=active&per_page=50'',
            headers = [(''X-Auth-Email'', ''id''), (''X-Auth-Key'', ''key''),
                       (''Content-Type'', ''application/json'')],
            body = None\<rparr>,
           \<lparr>http_method = ''POST'',
            url = ''https://api.cloudflare.com/client/v4/graphql'',
            headers = [(''X-Auth-Email'', ''id''), (''X-Auth-Key'', ''key''),
                       (''Content-Type'', ''application/json'')],
            body = Some (JObj
              [(''query'', JStr (zone_query timeCfg C)),
               (''variables'',
                JObj [(''zoneIds'', JArr [JStr ''z1'', JNum 7]),
                      (''from'', JStr (queryFrom timeCfg)),
                      (''to'', JStr (queryTo timeCfg))])])\<rparr>]"
    and n: "\<not> contains ''$to'' (zone_query timeCfg C)"
    unfolding fz by (auto simp: K_def to_string_def)
  have "\<exists>timeCfg. getTimeConfig iso_parse 1700000000123 None None = Inr timeCfg
      \<and> snd (traffic iso_parse 1700000000123 K Q ZR (Rejected (Error ''offline'')))
      = [\<lparr>http_method = ''GET'',
            url = ''https://api.cloudflare.com/client/v4/zones?status=active&per_page=50'',
            headers = [(''X-Auth-Email'', ''id''), (''X-Auth-Key'', ''key''),
                       (''Content-Type'', ''application/json'')],
            body = None\<rparr>,
           \<lparr>http_method = ''POST'',
            url = ''https://api.cloudflare.com/client/v4/graphql'',
            headers = [(''X-Auth-Email'', ''id''), (''X-Auth-Key'', ''key''),
                       (''Content-Type'', ''application/json'')],
            body = Some (JObj
              [(''query'', JStr (zone_query timeCfg C)),
               (''variables'',
                JObj [(''zoneIds'', JArr [JStr ''z1'', JNum 7]),
                      (''from'', JStr (queryFrom timeCfg)),
                      (''to'', JStr (queryTo timeCfg))])])\<rparr>]
      \<and> \<not> contains ''$to'' (zone_query timeCfg C)"
    using t n calls by (auto simp: Q_def)
  then show ?thesis
    using h1 h2 h3 h4 unfolding K_def Q_def C_def ZR_def
    by (simp add: to_string_def)
qed

section \<open>The early answers of the handlers (claims C8, C9 and C10)\<close>

lemma js_lookup_Undefined:
  "js_lookup table k = Undefined \<longleftrightarrow> k \<notin> fst ` set table \<and> k \<notin> set Object_prototype"
proof (cases "map_of table k")
  case None
  then have "k \<notin> fst ` set table" by (simp add: map_of_eq_None_iff)
  then show ?thesis using None by (simp add: js_lookup_def)
next
  case (Some v)
  then have "k \<in> fst ` set table" by (metis map_of_eq_None_iff option.distinct(1))
  then show ?thesis using Some by (simp add: js_lookup_def)
qed

text \<open>
  Claim C10. In both handlers the credentials are checked first: when one of them is
  missing (absent or empty), the CDN handler answers 401 and the edge handler 500, both
  with \<^verbatim>\<open>{error: "Missing credentials"}\<close>, and no upstream request is made, whatever
  the metric and the other parameters are.
\<close>

theorem C10_credentials_first:
  "(missing_credentials ks \<longrightarrow>
      traffic parse now ks q zones_reply graphql_reply
        = (Sent (Response 401 (error_body ''Missing credentials'')), []))
   \<and> (\<not> truthy (secretId es) \<or> \<not> truthy (secretKey es) \<longrightarrow>
      esa_traffic parse now nonce es eq reply
        = (Sent (Response 500 (error_body ''Missing credentials'')), []))"
  by (simp add: traffic_def esa_traffic_def)

theorem C10_credentials_first_witness:
  "missing_credentials
     \<lparr>secretId = Some ''id'', secretKey = Some ''key'', accountTag = Some ''acct'',
      zonetag = None\<rparr>
   \<and> traffic iso_parse 1700000000123
        \<lparr>secretId = Some ''id'', secretKey = Some ''key'', accountTag = Some ''acct'',
         zonetag = None\<rparr>
        \<lparr>metric = Some ''l7Flow_request_sip'', startTime = None, endTime = None\<rparr>
        (Rejected (Error ''offline'')) (Rejected (Error ''offline''))
      = (Sent (Response 401 (JObj [(''error'', JStr ''Missing credentials'')])), [])
   \<and> \<not> truthy (secretKey \<lparr>secretId = Some ''id'', secretKey = Some []\<rparr>)
   \<and> esa_traffic iso_parse 1700000000123 ''nonce''
        \<lparr>secretId = Some ''id'', secretKey = Some []\<rparr>
        \<lparr>metric = Some ''l7Flow_flux'', startTime = None, endTime = None,
         interval = None, Limit = None, siteId = None\<rparr>
        (Rejected (Error ''offline''))
      = (Sent (Response 500 (JObj [(''error'', JStr ''Missing credentials'')])), [])"
proof -
  have a: "missing_credentials
     \<lparr>secretId = Some ''id'', secretKey = Some ''key'', accountTag = Some ''acct'',
      zonetag = None\<rparr>"
    by (simp add: missing_credentials_def truthy_def)
  have b: "\<not> truthy (secretKey \<lparr>secretId = Some ''id'', secretKey = Some []\<rparr>)"
    by (simp add: truthy_def)
  show ?thesis
    using a b
      C10_credentials_first [of
        "\<lparr>secretId = Some ''id'', secretKey = Some ''key'', accountTag = Some ''acct'',
          zonetag = None\<rparr>"
        iso_parse 1700000000123
        "\<lparr>metric = Some ''l7Flow_request_sip'', startTime = None, endTime = None\<rparr>"
        "Rejected (Error ''offline'')" "Rejected (Error ''offline'')"
        "\<lparr>secretId = Some ''id'', secretKey = Some []\<rparr>"
        "''nonce''"
        "\<lparr>metric = Some ''l7Flow_flux'', startTime = None, endTime = None,
          interval = None, Limit = None, siteId = None\<rparr>"
        "Rejected (Error ''offline'')"]
    by (simp add: error_body_def)
qed

text \<open>
  Claim C8, as stated, fails on the edge adapter: its answer to an unknown metric is
  \<^verbatim>\<open>{error: "Invalid metric parameter"}\<close>.
\<close>

theorem C8_counterexample:
  "esa_traffic iso_parse 1700000000123 ''nonce''
        \<lparr>secretId = Some ''id'', secretKey = Some ''key''\<rparr>
        \<lparr>metric = Some ''unknown_key'', startTime = None, endTime = None,
         interval = None, Limit = None, siteId = None\<rparr>
        (Rejected (Error ''offline''))
     = (Sent (Response 400 (JObj [(''error'', JStr ''Invalid metric parameter'')])), [])
   \<and> JObj [(''error'', JStr ''Invalid metric parameter'')]
       \<noteq> JObj [(''error'', JStr ''Invalid metric'')]"
  by (simp add: esa_traffic_def truthy_def to_string_def js_lookup_def METRIC_CONFIG_def
        METRIC_CONFIG_literal_def Object_prototype_def error_body_def)

text \<open>
  Claim C8, amended. Let the credentials be present and let the metric key be no name of
  a property of \<^verbatim>\<open>Object.prototype\<close>. When the key is in neither table of the CDN
  adapter, its handler answers 400 with \<^verbatim>\<open>{error: "Invalid metric"}\<close>; when the key
  is not in the registry of the edge adapter, its handler answers 400 with
  \<^verbatim>\<open>{error: "Invalid metric parameter"}\<close>. Neither makes an upstream request.
\<close>

theorem C8_unknown_metric:
  "(\<not> missing_credentials ks \<and> to_string (metric q) \<notin> set Object_prototype
      \<and> to_string (metric q) \<notin> fst ` set ZONE_TOPN_CONFIG
      \<and> to_string (metric q) \<notin> fst ` set METRIC_MAP \<longrightarrow>
      traffic parse now ks q zones_reply graphql_reply
        = (Sent (Response 400 (error_body ''Invalid metric'')), []))
   \<and> (truthy (secretId es) \<and> truthy (secretKey es)
      \<and> to_string (metric eq) \<notin> set Object_prototype
      \<and> to_string (metric eq) \<notin> fst ` set METRIC_CONFIG \<longrightarrow>
      esa_traffic parse now nonce es eq reply
        = (Sent (Response 400 (error_body ''Invalid metric parameter'')), []))"
proof (intro conjI impI)
  assume a: "\<not> missing_credentials ks \<and> to_string (metric q) \<notin> set Object_prototype
      \<and> to_string (metric q) \<notin> fst ` set ZONE_TOPN_CONFIG
      \<and> to_string (metric q) \<notin> fst ` set METRIC_MAP"
  then have "js_lookup ZONE_TOPN_CONFIG (to_string (metric q)) = Undefined"
    "js_lookup METRIC_MAP (to_string (metric q)) = Undefined"
    by (simp_all add: js_lookup_Undefined)
  then show "traffic parse now ks q zones_reply graphql_reply
        = (Sent (Response 400 (error_body ''Invalid metric'')), [])"
    using a by (simp add: traffic_def)
next
  assume a: "truthy (secretId es) \<and> truthy (secretKey es)
      \<and> to_string (metric eq) \<notin> set Object_prototype
      \<and> to_string (metric eq) \<notin> fst ` set METRIC_CONFIG"
  then have "js_lookup METRIC_CONFIG (to_string (metric eq)) = Undefined"
    by (simp add: js_lookup_Undefined)
  then show "esa_traffic parse now nonce es eq reply
        = (Sent (Response 400 (error_body ''Invalid metric parameter'')), [])"
    using a by (simp add: esa_traffic_def)
qed

theorem C8_unknown_metric_witness:
  "\<not> missing_credentials
       \<lparr>secretId = Some ''id'', secretKey = Some ''key'', accountTag = Some ''acct'',
        zonetag = Some ''zone''\<rparr>
   \<and> ''unknown_key'' \<notin> set Object_prototype
   \<and> ''unknown_key'' \<notin> fst ` set ZONE_TOPN_CONFIG
   \<and> ''unknown_key'' \<notin> fst ` set METRIC_MAP
   \<and> ''unknown_key'' \<notin> fst ` set METRIC_CONFIG
   \<and> traffic iso_parse 1700000000123
        \<lparr>secretId = Some ''id'', secretKey = Some ''key'', accountTag = Some ''acct'',
         zonetag = Some ''zone''\<rparr>
        \<lparr>metric = Some ''unknown_key'', startTime = None, endTime = None\<rparr>
        (Rejected (Error ''offline'')) (Rejected (Error ''offline''))
      = (Sent (Response 400 (JObj [(''error'', JStr ''Invalid metric'')])), [])
   \<and> esa_traffic iso_parse 1700000000123 ''nonce''
        \<lparr>secretId = Some ''id'', secretKey = Some ''key''\<rparr>
        \<lparr>metric = Some ''unknown_key'', startTime = None, endTime = None,
         interval = None, Limit = None, siteId = None\<rparr>
        (Rejected (Error ''offline''))
      = (Sent (Response 400 (JObj [(''error'', JStr ''Invalid metric parameter'')])), [])"
proof -
  have k: "\<not> missing_credentials
       \<lparr>secretId = Some ''id'', secretKey = Some ''key'', accountTag = Some ''acct'',
        zonetag = Some ''zone''\<rparr>"
    by (simp add: missing_credentials_def truthy_def)
  have u: "''unknown_key'' \<notin> set Object_prototype"
    "''unknown_key'' \<notin> fst ` set ZONE_TOPN_CONFIG"
    "''unknown_key'' \<notin> fst ` set METRIC_MAP"
    "''unknown_key'' \<notin> fst ` set METRIC_CONFIG"
    by (simp_all add: Object_prototype_def ZONE_TOPN_CONFIG_def METRIC_MAP_def
          METRIC_CONFIG_def METRIC_CONFIG_literal_def)
  show ?thesis
    using k u
      C8_unknown_metric [of
        "\<lparr>secretId = Some ''id'', secretKey = Some ''key'', accountTag = Some ''acct'',
          zonetag = Some ''zone''\<rparr>"
        "\<lparr>metric = Some ''unknown_key'', startTime = None, endTime = None\<rparr>"
        iso_parse 1700000000123
        "Rejected (Error ''offline'')" "Rejected (Error ''offline'')"
        "\<lparr>secretId = Some ''id'', secretKey = Some ''key''\<rparr>"
        "\<lparr>metric = Some ''unknown_key'', startTime = None, endTime = None,
          interval = None, Limit = None, siteId = None\<rparr>"
        "''nonce''" "Rejected (Error ''offline'')"]
    by (simp add: error_body_def to_string_def truthy_def)
qed

lemma traffic_topn:
  assumes "\<not> missing_credentials ks"
    and "js_lookup ZONE_TOPN_CONFIG (to_string (metric q)) = Own targetField"
  shows "traffic parse now ks q zones_reply graphql_reply
      = topn_branch parse now ks q targetField graphql_reply"
  using assms by (simp add: traffic_def)

lemma topn_zero_zones:
  assumes "own ms ''errors'' = None"
    and "own ms ''data'' = Some (JObj [(''viewer'', JObj [(''zones'', JArr [])])])"
  shows "topn_response targetField (JObj ms)
      = Throw (cannot_read ''undefined'' ''httpRequestsAdaptiveGroups'')"
  using assms
  by (simp add: topn_response_def topn_result_def elements_def unless_errors_def bind_def
        js_truthy_def own_def)

text \<open>
  Claim C9 on the ad-hoc zone Top-N: an upstream reply without errors and with an empty
  list of zones makes \<^verbatim>\<open>zones[0]\<close> undefined, the read of
  \<^verbatim>\<open>httpRequestsAdaptiveGroups\<close> throws, and the handler answers 500 instead of an
  empty result. The zone-scope and account-scope paths guard this case.
\<close>

theorem C9_topn_zero_zones:
  "fst (traffic iso_parse 1700000000123
        \<lparr>secretId = Some ''id'', secretKey = Some ''key'', accountTag = Some ''acct'',
         zonetag = Some ''zone''\<rparr>
        \<lparr>metric = Some ''l7Flow_request_sip'', startTime = None, endTime = None\<rparr>
        (Rejected (Error ''offline''))
        (Resolved \<lparr>status = 200, statusText = ''OK'', body_text = [],
           body_json = Inr (JObj [(''data'',
             JObj [(''viewer'', JObj [(''zones'', JArr [])])])])\<rparr>))
   = Sent (Response 500
       (JObj [(''error'',
          JStr (''Cannot read properties of undefined (reading '' @ [CHR 0x27]
                @ ''httpRequestsAdaptiveGroups'' @ [CHR 0x27] @ '')''))]))"
proof -
  define K where "K = \<lparr>secretId = Some ''id'', secretKey = Some ''key'',
    accountTag = Some ''acct'', zonetag = Some ''zone''\<rparr>"
  define Q where "Q = \<lparr>metric = Some ''l7Flow_request_sip'', startTime = None,
    endTime = None\<rparr>"
  define GR where "GR = Resolved \<lparr>status = 200, statusText = ''OK'', body_text = [],
           body_json = Inr (JObj [(''data'',
             JObj [(''viewer'', JObj [(''zones'', JArr [])])])])\<rparr>"
  have k: "\<not> missing_credentials K"
    by (simp add: K_def missing_credentials_def truthy_def)
  have f: "js_lookup ZONE_TOPN_CONFIG (to_string (metric Q)) = Own ''clientIP''"
    by (simp add: Q_def to_string_def js_lookup_def ZONE_TOPN_CONFIG_def)
  obtain timeCfg where t: "getTimeConfig iso_parse 1700000000123 (startTime Q) (endTime Q)
      = Inr timeCfg"
    by (rule getTimeConfig_modes [of 1700000000123 iso_parse "startTime Q" "endTime Q"])
       (simp_all add: valid_time_def)
  have a: "api_data GR = Ok (JObj [(''data'',
             JObj [(''viewer'', JObj [(''zones'', JArr [])])])])"
    by (simp add: GR_def api_data_def lift_def)
  have "fst (traffic iso_parse 1700000000123 K Q (Rejected (Error ''offline'')) GR)
      = respond (Throw (cannot_read ''undefined'' ''httpRequestsAdaptiveGroups''))"
    unfolding traffic_topn [OF k f]
    by (simp add: topn_branch_def t a bind_def topn_zero_zones own_def)
  then show ?thesis
    unfolding K_def Q_def GR_def
    by (simp add: respond_def error_body_def message_def cannot_read_def)
qed

section \<open>The order of the distributions\<close>

lemma by_value_desc_sort_key:
  "by_value_desc es = sort_key (\<lambda>e. - snd e) es"
proof -
  have "(\<lambda>(a :: 'a \<times> int) (b :: 'a \<times> int). snd b - snd a)
          = (\<lambda>a b. (- snd a) - (- snd b))"
    by (intro ext) simp
  then show ?thesis
    unfolding by_value_desc_def using js_sort_key [of "\<lambda>e. - snd e" es] by simp
qed

lemma by_value_desc_descending:
  "sorted_wrt (\<lambda>a b. snd b \<le> snd a) (by_value_desc es)"
proof -
  have "sorted (map (\<lambda>e. - snd e) (sort_key (\<lambda>e. - snd e) es))"
    by (rule sorted_sort_key)
  then show ?thesis
    by (simp add: by_value_desc_sort_key sorted_map)
qed

lemma by_value_desc_stable:
  "filter (\<lambda>e. snd e = v) (by_value_desc es) = filter (\<lambda>e. snd e = v) es"
  using sort_key_stable [of "\<lambda>e. - snd e" "- v" es]
  by (simp add: by_value_desc_sort_key)

lemma by_value_desc_mset:
  "mset (by_value_desc es) = mset es"
  by (simp add: by_value_desc_sort_key)

lemma map_result_Ok:
  "map_result f xs = Ok ys \<Longrightarrow> list_all2 (\<lambda>x y. f x = Ok y) xs ys"
proof (induction xs arbitrary: ys)
  case Nil
  then show ?case by simp
next
  case (Cons x xs)
  from Cons.prems obtain y zs where y: "f x = Ok y" and zs: "map_result f xs = Ok zs"
    and ys: "ys = y # zs"
    by (auto simp add: bind_def split: result.splits)
  from Cons.IH [OF zs] y ys show ?case by simp
qed

lemma esa_traffic_outcome:
  assumes "truthy (secretId ks)" "truthy (secretKey ks)"
    and "js_lookup METRIC_CONFIG (to_string (metric q)) = Own c"
    and "valid_time now" "valid_time (now - 24 * 60 * 60 * 1000)"
  shows "fst (esa_traffic parse now nonce ks q reply)
           = esa_respond (esa_reply parse c (metric q) reply)"
proof -
  obtain s where s: "toISOString now = Inr s"
    using assms(4) by (rule toISOString_Inr)
  obtain d where d: "toISOString (now - 24 * 60 * 60 * 1000) = Inr d"
    using assms(5) by (rule toISOString_Inr)
  show ?thesis
    unfolding esa_traffic_def esa_params_def formatISO_def Let_def
    using assms(1,2,3) s d by simp
qed

text \<open>
  The edge adapter answers a Top-N metric with the upstream items in the order
  received: an upstream reply listing \<open>A: 5\<close> before \<open>B: 9\<close> is answered in that order,
  which is not descending by \<open>Value\<close>.
\<close>

theorem C6_counterexample:
  "fst (esa_traffic iso_parse 1700000000123 ''nonce''
          \<lparr>secretId = Some ''id'', secretKey = Some ''key''\<rparr>
          \<lparr>metric = Some ''l7Flow_request_country'', startTime = None, endTime = None,
           interval = None, Limit = None, siteId = None\<rparr>
          (Resolved \<lparr>status = 200, statusText = ''OK'', body_text = [],
             body_json = Inr (JObj [(''Data'',
               JArr [JObj [(''DetailData'',
                 JArr [JObj [(''DimensionValue'', JStr ''A''), (''Value'', JNum 5)],
                       JObj [(''DimensionValue'', JStr ''B''), (''Value'', JNum 9)]])]])])\<rparr>))
     = Sent (Response 200 (JObj [(''Data'',
               JArr [JObj [(''DetailData'',
                 JArr [JObj [(''Value'', JNum 5), (''Key'', JStr ''A'')],
                       JObj [(''Value'', JNum 9), (''Key'', JStr ''B'')]])]])]))
   \<and> \<not> sorted_wrt (\<lambda>a b. b \<le> a) [5 :: int, 9]"
proof -
  let ?c = "\<lparr>action = Some ''DescribeSiteTopData'', field = Some ''Requests'',
             esa_dimension = Some ''ClientCountryCode'', esa_type = Some ''TOP''\<rparr>"
  have c: "js_lookup METRIC_CONFIG (to_string (Some ''l7Flow_request_country'')) = Own ?c"
    by code_simp
  have v: "valid_time 1700000000123" "valid_time (1700000000123 - 24 * 60 * 60 * 1000)"
    by (simp_all add: valid_time_def)
  have r: "esa_respond (esa_reply iso_parse ?c (Some ''l7Flow_request_country'')
          (Resolved \<lparr>status = 200, statusText = ''OK'', body_text = [],
             body_json = Inr (JObj [(''Data'',
               JArr [JObj [(''DetailData'',
                 JArr [JObj [(''DimensionValue'', JStr ''A''), (''Value'', JNum 5)],
                       JObj [(''DimensionValue'', JStr ''B''), (''Value'', JNum 9)]])]])])\<rparr>))
     = Sent (Response 200 (JObj [(''Data'',
               JArr [JObj [(''DetailData'',
                 JArr [JObj [(''Value'', JNum 5), (''Key'', JStr ''A'')],
                       JObj [(''Value'', JNum 9), (''Key'', JStr ''B'')]])]])]))"
    by code_simp
  show ?thesis
    using esa_traffic_outcome [of "\<lparr>secretId = Some ''id'', secretKey = Some ''key''\<rparr>"
        "\<lparr>metric = Some ''l7Flow_request_country'', startTime = None, endTime = None,
           interval = None, Limit = None, siteId = None\<rparr>" ?c 1700000000123 iso_parse
           "''nonce''"] c v r
    by (simp add: truthy_def)
qed


text \<open>
  Claim C6, amended. The CDN adapter sorts two results itself: the account-scope
  distribution and the zone-scope totals are answered as the entries computed from
  the upstream rows, ordered by \<open>by_value_desc\<close>; that order is descending by
  \<open>Value\<close>, a rearrangement of the entries, and stable (the entries of any one value
  keep their upstream order). The ad-hoc zone Top-N of the CDN adapter and the Top-N
  branch of the edge adapter do not sort: the answer holds the image of every
  upstream item, position by position.
\<close>

theorem C6_distribution_order:
  fixes es :: "('k \<times> int) list"
  shows
  "(isDistribution config
      \<and> map_result (distribution_entry (to_string (dimension config)) (sumid config)) items
          = Ok detailData
     \<longrightarrow> account_result parse q timeCfg config (Some (JArr items))
          = Ok (Response 200 (detail_body (map entry_json (by_value_desc detailData)))))
   \<and> (map_result (zone_entry idNameMap (datasetMode zoneCfg) (sumid zoneConfig)) zs
          = Ok resultList
     \<longrightarrow> zone_result idNameMap zoneCfg zoneConfig (Some (JArr zs))
          = Ok (Response 200 (detail_body (map entry_json (by_value_desc resultList)))))
   \<and> sorted_wrt (\<lambda>a b. snd b \<le> snd a) (by_value_desc es)
   \<and> mset (by_value_desc es) = mset es
   \<and> filter (\<lambda>e. snd e = v) (by_value_desc es) = filter (\<lambda>e. snd e = v) es
   \<and> (map_result (topn_entry targetField) groups = Ok shaped
     \<longrightarrow> topn_result targetField (Some (JArr groups)) = Ok (Response 200 (detail_body shaped))
         \<and> list_all2 (\<lambda>g e. topn_entry targetField g = Ok e) groups shaped)
   \<and> (own dataItem ''DetailData'' = Some (JArr upstream)
      \<and> map_result top_item upstream = Ok mapped
     \<longrightarrow> top_data_item (JObj dataItem)
          = Ok (JObj (set_member ''DetailData'' (JArr mapped) dataItem))
         \<and> list_all2 (\<lambda>i m. top_item i = Ok m) upstream mapped)"
proof -
  have account: "account_result parse q timeCfg config (Some (JArr items))
          = Ok (Response 200 (detail_body (map entry_json (by_value_desc detailData))))"
    if "isDistribution config"
      "map_result (distribution_entry (to_string (dimension config)) (sumid config)) items
          = Ok detailData"
    using that by (simp add: account_result_def elements_def bind_def)
  have zone: "zone_result idNameMap zoneCfg zoneConfig (Some (JArr zs))
          = Ok (Response 200 (detail_body (map entry_json (by_value_desc resultList))))"
    if "map_result (zone_entry idNameMap (datasetMode zoneCfg) (sumid zoneConfig)) zs
          = Ok resultList"
    using that by (simp add: zone_result_def elements_def bind_def)
  have topn: "topn_result targetField (Some (JArr groups))
          = Ok (Response 200 (detail_body shaped))"
    if "map_result (topn_entry targetField) groups = Ok shaped"
    using that by (simp add: topn_result_def elements_def bind_def)
  have edge: "top_data_item (JObj dataItem)
          = Ok (JObj (set_member ''DetailData'' (JArr mapped) dataItem))"
    if "own dataItem ''DetailData'' = Some (JArr upstream)"
      "map_result top_item upstream = Ok mapped"
    using that by (simp add: top_data_item_def bind_def)
  show ?thesis
    using account zone topn edge by_value_desc_descending [of es] by_value_desc_mset [of es]
      by_value_desc_stable [of v es] map_result_Ok [of "topn_entry targetField" groups shaped]
      map_result_Ok [of top_item upstream mapped]
    by blast
qed

theorem C6_distribution_order_witness:
  "account_result iso_parse
      \<lparr>metric = Some ''l7Flow_request_country'', startTime = None, endTime = None\<rparr>
      \<lparr>start = ''2023-11-13T22:13:20.123Z'', end' = ''2023-11-14T22:13:20.123Z'',
       queryFrom = ''2023-11-13T22:13:20.123Z'', queryTo = ''2023-11-14T22:13:20.123Z'',
       datasetMode = ''httpRequests1hGroups'', orderBy = ''datetime_ASC'',
       dimensionKey = ''datetime'', isLongTerm = False, filterObj = []\<rparr>
      (distribution_metric ''l7Flow_request_country'' ''requests'' ''clientCountryName'')
      (Some (JArr
        [JObj [(''dimensions'', JObj [(''clientCountryName'', JStr ''A'')]),
               (''sum'', JObj [(''requests'', JNum 5)])],
         JObj [(''dimensions'', JObj [(''clientCountryName'', JStr ''B'')]),
               (''sum'', JObj [(''requests'', JNum 9)])],
         JObj [(''dimensions'', JObj [(''clientCountryName'', JStr ''C'')]),
               (''sum'', JObj [(''requests'', JNum 9)])]]))
     = Ok (Response 200 (detail_body
        [JObj [(''Key'', JStr ''B''), (''Value'', JNum 9)],
         JObj [(''Key'', JStr ''C''), (''Value'', JNum 9)],
         JObj [(''Key'', JStr ''A''), (''Value'', JNum 5)]]))
   \<and> zone_result [(''z1'', Some (JStr ''one.example'')), (''z2'', Some (JStr ''two.example''))]
      \<lparr>start = ''2023-11-13T22:13:20.123Z'', end' = ''2023-11-14T22:13:20.123Z'',
       queryFrom = ''2023-11-13T22:13:20.123Z'', queryTo = ''2023-11-14T22:13:20.123Z'',
       datasetMode = ''httpRequests1hGroups'', orderBy = ''datetime_ASC'',
       dimensionKey = ''datetime'', isLongTerm = False, filterObj = []\<rparr>
      (series_metric ''l7Flow_outFlux_domain'' ''bytes'' Zone)
      (Some (JArr
        [JObj [(''zoneTag'', JStr ''z1''),
               (''httpRequests1hGroups'',
                JArr [JObj [(''sum'', JObj [(''bytes'', JNum 2)])],
                      JObj [(''sum'', JObj [(''bytes'', JNum 3)])]])],
         JObj [(''zoneTag'', JStr ''z2''),
               (''httpRequests1hGroups'',
                JArr [JObj [(''sum'', JObj [(''bytes'', JNum 9)])]])]]))
     = Ok (Response 200 (detail_body
        [JObj [(''Key'', JStr ''two.example''), (''Value'', JNum 9)],
         JObj [(''Key'', JStr ''one.example''), (''Value'', JNum 5)]]))
   \<and> by_value_desc [(''A'', 5), (''B'', 9), (''C'', 9)] = [(''B'', 9), (''C'', 9), (''A'', 5)]
   \<and> sorted_wrt (\<lambda>a b. snd b \<le> snd a) (by_value_desc [(''A'', 5), (''B'', 9), (''C'', 9)])
   \<and> filter (\<lambda>e. snd e = 9) (by_value_desc [(''A'', 5), (''B'', 9), (''C'', 9)])
       = [(''B'', 9), (''C'', 9)]
   \<and> topn_result ''clientIP''
      (Some (JArr
        [JObj [(''count'', JNum 3), (''dimensions'', JObj [(''clientIP'', JStr ''192.0.2.1'')])],
         JObj [(''count'', JNum 7), (''dimensions'', JObj [(''clientIP'', JStr ''192.0.2.2'')])]]))
     = Ok (Response 200 (detail_body
        [JObj [(''Key'', JStr ''192.0.2.1''), (''Value'', JNum 3)],
         JObj [(''Key'', JStr ''192.0.2.2''), (''Value'', JNum 7)]]))
   \<and> top_data_item
      (JObj [(''DetailData'',
         JArr [JObj [(''DimensionValue'', JStr ''A''), (''Value'', JNum 5)],
               JObj [(''DimensionValue'', JStr ''B''), (''Value'', JNum 9)]])])
     = Ok (JObj [(''DetailData'',
         JArr [JObj [(''Value'', JNum 5), (''Key'', JStr ''A'')],
               JObj [(''Value'', JNum 9), (''Key'', JStr ''B'')]])])"
proof -
  let ?tc = "\<lparr>start = ''2023-11-13T22:13:20.123Z'', end' = ''2023-11-14T22:13:20.123Z'',
       queryFrom = ''2023-11-13T22:13:20.123Z'', queryTo = ''2023-11-14T22:13:20.123Z'',
       datasetMode = ''httpRequests1hGroups'', orderBy = ''datetime_ASC'',
       dimensionKey = ''datetime'', isLongTerm = False, filterObj = []\<rparr>"
  let ?config = "distribution_metric ''l7Flow_request_country'' ''requests''
                   ''clientCountryName''"
  let ?items = "[JObj [(''dimensions'', JObj [(''clientCountryName'', JStr ''A'')]),
               (''sum'', JObj [(''requests'', JNum 5)])],
         JObj [(''dimensions'', JObj [(''clientCountryName'', JStr ''B'')]),
               (''sum'', JObj [(''requests'', JNum 9)])],
         JObj [(''dimensions'', JObj [(''clientCountryName'', JStr ''C'')]),
               (''sum'', JObj [(''requests'', JNum 9)])]]"
  let ?detailData = "[(Some (JStr ''A''), 5), (Some (JStr ''B''), 9), (Some (JStr ''C''), 9)]"
  let ?idNameMap = "[(''z1'', Some (JStr ''one.example'')),
                     (''z2'', Some (JStr ''two.example''))]"
  let ?zoneConfig = "series_metric ''l7Flow_outFlux_domain'' ''bytes'' Zone"
  let ?zs = "[JObj [(''zoneTag'', JStr ''z1''),
               (''httpRequests1hGroups'',
                JArr [JObj [(''sum'', JObj [(''bytes'', JNum 2)])],
                      JObj [(''sum'', JObj [(''bytes'', JNum 3)])]])],
         JObj [(''zoneTag'', JStr ''z2''),
               (''httpRequests1hGroups'',
                JArr [JObj [(''sum'', JObj [(''bytes'', JNum 9)])]])]]"
  let ?resultList = "[(Some (JStr ''one.example''), 5), (Some (JStr ''two.example''), 9)]"
  let ?es = "[(''A'', 5), (''B'', 9), (''C'', 9 :: int)]"
  let ?groups = "[JObj [(''count'', JNum 3),
                        (''dimensions'', JObj [(''clientIP'', JStr ''192.0.2.1'')])],
         JObj [(''count'', JNum 7), (''dimensions'', JObj [(''clientIP'', JStr ''192.0.2.2'')])]]"
  let ?shaped = "[JObj [(''Key'', JStr ''192.0.2.1''), (''Value'', JNum 3)],
         JObj [(''Key'', JStr ''192.0.2.2''), (''Value'', JNum 7)]]"
  let ?upstream = "[JObj [(''DimensionValue'', JStr ''A''), (''Value'', JNum 5)],
               JObj [(''DimensionValue'', JStr ''B''), (''Value'', JNum 9)]]"
  let ?mapped = "[JObj [(''Value'', JNum 5), (''Key'', JStr ''A'')],
               JObj [(''Value'', JNum 9), (''Key'', JStr ''B'')]]"
  have h1: "isDistribution ?config" by (simp add: distribution_metric_def)
  have h2: "map_result (distribution_entry (to_string (dimension ?config)) (sumid ?config))
              ?items = Ok ?detailData"
    by code_simp
  have h3: "map_result (zone_entry ?idNameMap (datasetMode ?tc) (sumid ?zoneConfig)) ?zs
              = Ok ?resultList"
    by code_simp
  have h4: "map_result (topn_entry ''clientIP'') ?groups = Ok ?shaped" by code_simp
  have h5: "own [(''DetailData'', JArr ?upstream)] ''DetailData'' = Some (JArr ?upstream)"
    by (simp add: own_def)
  have h6: "map_result top_item ?upstream = Ok ?mapped" by code_simp
  have e1: "map entry_json (by_value_desc ?detailData)
              = [JObj [(''Key'', JStr ''B''), (''Value'', JNum 9)],
                 JObj [(''Key'', JStr ''C''), (''Value'', JNum 9)],
                 JObj [(''Key'', JStr ''A''), (''Value'', JNum 5)]]"
    by code_simp
  have e2: "map entry_json (by_value_desc ?resultList)
              = [JObj [(''Key'', JStr ''two.example''), (''Value'', JNum 9)],
                 JObj [(''Key'', JStr ''one.example''), (''Value'', JNum 5)]]"
    by code_simp
  have e3: "by_value_desc ?es = [(''B'', 9), (''C'', 9), (''A'', 5)]" by code_simp
  have e4: "filter (\<lambda>e. snd e = 9) ?es = [(''B'', 9), (''C'', 9)]" by simp
  have e5: "set_member ''DetailData'' (JArr ?mapped) [(''DetailData'', JArr ?upstream)]
              = [(''DetailData'', JArr ?mapped)]"
    by (simp add: set_member_def)
  show ?thesis
    using C6_distribution_order [where config = ?config and items = ?items
        and detailData = ?detailData and parse = iso_parse
        and q = "\<lparr>metric = Some ''l7Flow_request_country'', startTime = None,
                  endTime = None\<rparr>"
        and timeCfg = ?tc and idNameMap = ?idNameMap and zoneCfg = ?tc
        and zoneConfig = ?zoneConfig and zs = ?zs and resultList = ?resultList
        and es = ?es and v = 9 and targetField = "''clientIP''" and groups = ?groups
        and shaped = ?shaped and dataItem = "[(''DetailData'', JArr ?upstream)]"
        and upstream = ?upstream and mapped = ?mapped]
      h1 h2 h3 h4 h5 h6
    unfolding e1 e2 e3 e4 e5
    by simp
qed

section \<open>The registries\<close>

lemma METRIC_MAP_cases:
  assumes "map_of METRIC_MAP k = Some m"
  shows "(dimension m \<noteq> None) = isDistribution m"
  using assms
  by (auto simp: METRIC_MAP_def series_metric_def distribution_metric_def
           split: if_splits)

lemma METRIC_CONFIG_cases:
  assumes "map_of METRIC_CONFIG k = Some c"
  shows "esa_dimension c \<noteq> None \<and> action c \<noteq> None \<and> field c \<noteq> None
    \<and> (esa_type c = Some ''TS'' \<or> esa_type c = Some ''TOP'')
    \<and> ((esa_dimension c = Some ''ALL'') = (esa_type c = Some ''TS''))"
  using assms
  by (auto simp: METRIC_CONFIG_def METRIC_CONFIG_literal_def default_fill_def truthy_def
           ts_entry_def top_entry_def split: if_splits)

text \<open>
  Claim C4, as stated, fails on the edge registry: the time-series descriptor of
  \<^verbatim>\<open>l7Flow_flux\<close> carries the dimension \<^verbatim>\<open>ALL\<close>.
\<close>

theorem C4_counterexample:
  "\<not> (case js_lookup METRIC_CONFIG ''l7Flow_flux'' of
        Own c \<Rightarrow> (esa_dimension c \<noteq> None) = (esa_kind c = Distribution)
      | Inherited \<Rightarrow> True
      | Undefined \<Rightarrow> True)"
  by (simp add: js_lookup_def METRIC_CONFIG_def METRIC_CONFIG_literal_def default_fill_def
        truthy_def ts_entry_def esa_kind_def)

text \<open>
  Claim C4, amended. For every key of the CDN registry the descriptor has a dimension if
  and only if its kind is Distribution. For every key of the edge registry the descriptor
  always has a dimension, and that dimension is the placeholder \<^verbatim>\<open>ALL\<close> if and only
  if its kind is TimeSeries.
\<close>

theorem C4_dimension_and_kind:
  "(js_lookup METRIC_MAP k = Own m \<longrightarrow>
      (dimension m \<noteq> None) = (metric_kind m = Distribution))
   \<and> (js_lookup METRIC_CONFIG k = Own c \<longrightarrow>
      esa_dimension c \<noteq> None
      \<and> (esa_dimension c = Some ''ALL'') = (esa_kind c = TimeSeries))"
proof (intro conjI impI)
  assume "js_lookup METRIC_MAP k = Own m"
  then have "map_of METRIC_MAP k = Some m"
    by (simp add: js_lookup_def split: option.splits if_splits)
  then show "(dimension m \<noteq> None) = (metric_kind m = Distribution)"
    using METRIC_MAP_cases [of k m] by (simp add: metric_kind_def)
next
  assume "js_lookup METRIC_CONFIG k = Own c"
  then have "map_of METRIC_CONFIG k = Some c"
    by (simp add: js_lookup_def split: option.splits if_splits)
  then have *: "esa_dimension c \<noteq> None"
    "(esa_dimension c = Some ''ALL'') = (esa_type c = Some ''TS'')"
    using METRIC_CONFIG_cases [of k c] by simp_all
  show "esa_dimension c \<noteq> None" by (rule *(1))
  show "(esa_dimension c = Some ''ALL'') = (esa_kind c = TimeSeries)"
    using *(2) by (simp add: esa_kind_def)
qed

theorem C4_dimension_and_kind_witness:
  "js_lookup METRIC_MAP ''l7Flow_outFlux_country''
     = Own (distribution_metric ''l7Flow_outFlux_country'' ''bytes'' ''clientCountryName'')
   \<and> (dimension (distribution_metric ''l7Flow_outFlux_country'' ''bytes''
         ''clientCountryName'') \<noteq> None)
     = (metric_kind (distribution_metric ''l7Flow_outFlux_country'' ''bytes''
         ''clientCountryName'') = Distribution)
   \<and> js_lookup METRIC_CONFIG ''l7Flow_flux'' = Own (ts_entry ''Traffic'')
   \<and> esa_dimension (ts_entry ''Traffic'') = Some ''ALL''
   \<and> esa_kind (ts_entry ''Traffic'') = TimeSeries"
proof -
  have a: "js_lookup METRIC_MAP ''l7Flow_outFlux_country''
     = Own (distribution_metric ''l7Flow_outFlux_country'' ''bytes'' ''clientCountryName'')"
    by (simp add: js_lookup_def METRIC_MAP_def)
  have b: "js_lookup METRIC_CONFIG ''l7Flow_flux'' = Own (ts_entry ''Traffic'')"
    by (simp add: js_lookup_def METRIC_CONFIG_def METRIC_CONFIG_literal_def
          default_fill_def truthy_def ts_entry_def)
  show ?thesis
    using a b
      C4_dimension_and_kind [of "''l7Flow_outFlux_country''"
        "distribution_metric ''l7Flow_outFlux_country'' ''bytes'' ''clientCountryName''"
        "ts_entry ''Traffic''"]
    by (simp add: ts_entry_def esa_kind_def)
qed

end
